theory Spec2Isabelle
  imports Complex_Main "HOL-Library.Sublist" "HOL-Library.AList"
begin

section \<open>Python values used by main.py\<close>

subsection \<open>Strings\<close>

text \<open>
  A Python \<open>str\<close> is a sequence of Unicode code points, so it is modelled as a list of
  natural numbers (the code points), not as a list of bytes. \<open>u\<close> turns an ASCII
  literal into such a string.
\<close>

type_synonym str = "nat list"

definition u :: "string \<Rightarrow> str" where
  "u s = map of_char s"

text \<open>
  \<open>str.isspace\<close> for one code point, as \<open>str.strip()\<close> uses it: the white-space
  code points of the Unicode character database.
\<close>

definition isspace :: "nat \<Rightarrow> bool" where
  "isspace c \<longleftrightarrow>
     (9 \<le> c \<and> c \<le> 13) \<or> (28 \<le> c \<and> c \<le> 32) \<or> c = 133 \<or> c = 160 \<or> c = 5760 \<or>
     (8192 \<le> c \<and> c \<le> 8202) \<or> c = 8232 \<or> c = 8233 \<or> c = 8239 \<or> c = 8287 \<or>
     c = 12288"

definition lstrip :: "str \<Rightarrow> str" where
  "lstrip s = dropWhile isspace s"

definition rstrip :: "str \<Rightarrow> str" where
  "rstrip s = rev (dropWhile isspace (rev s))"

text \<open>\<open>s.strip()\<close>\<close>

definition strip :: "str \<Rightarrow> str" where
  "strip s = rstrip (lstrip s)"

text \<open>\<open>s.lstrip(chars)\<close>: drops the leading run of characters that occur in \<open>chars\<close>.\<close>

definition lstrip_chars :: "str \<Rightarrow> str \<Rightarrow> str" where
  "lstrip_chars s chars = dropWhile (\<lambda>c. c \<in> set chars) s"

text \<open>\<open>s.startswith(p)\<close>\<close>

definition startswith :: "str \<Rightarrow> str \<Rightarrow> bool" where
  "startswith s p \<longleftrightarrow> take (length p) s = p"

text \<open>\<open>s.find(p)\<close>: the index of the leftmost occurrence of \<open>p\<close> in \<open>s\<close>, if any.\<close>

fun find_str :: "str \<Rightarrow> str \<Rightarrow> nat option" where
  "find_str [] p = (if p = [] then Some 0 else None)"
| "find_str (c # s) p =
     (if startswith (c # s) p then Some 0 else map_option Suc (find_str s p))"

text \<open>\<open>p in s\<close>\<close>

definition contains :: "str \<Rightarrow> str \<Rightarrow> bool" where
  "contains s p \<longleftrightarrow> find_str s p \<noteq> None"

text \<open>
  \<open>s.split(sep, 1)\<close> for a non-empty separator: at most one split, at the leftmost
  occurrence of \<open>sep\<close>. (Every separator main.py passes is a non-empty literal.)
\<close>

definition split1 :: "str \<Rightarrow> str \<Rightarrow> str list" where
  "split1 s sep =
     (case find_str s sep of
        None \<Rightarrow> [s]
      | Some i \<Rightarrow> [take i s, drop (i + length sep) s])"

text \<open>\<open>str(n)\<close> for an integer: decimal digits, with a minus sign when negative.\<close>

fun decimal :: "nat \<Rightarrow> str" where
  "decimal n = (if n < 10 then [48 + n] else decimal (n div 10) @ [48 + n mod 10])"

declare decimal.simps [simp del]

definition str_int :: "int \<Rightarrow> str" where
  "str_int i = (if i < 0 then 45 # decimal (nat (- i)) else decimal (nat i))"

subsection \<open>Exceptions\<close>

datatype py_exception =
  KeyError | TypeError | AttributeError | IndexError | ValueError
  | ZeroDivisionError | JSONDecodeError | RequestException | ValidationError

text \<open>
  What reaches the caller of an endpoint instead of a response: the \<open>HTTPException\<close>
  the endpoint raises itself (status code and detail), or an exception nothing caught.
\<close>

datatype http_error = HTTPException int str | Uncaught py_exception

text \<open>Sequencing of steps that may raise: the first exception ends the computation.\<close>

definition bind_exc :: "py_exception + 'a \<Rightarrow> ('a \<Rightarrow> py_exception + 'b) \<Rightarrow> py_exception + 'b" where
  "bind_exc m f = (case m of Inl e \<Rightarrow> Inl e | Inr x \<Rightarrow> f x)"

text \<open>\<open>a // b\<close> on integers: floor division, \<open>ZeroDivisionError\<close> when \<open>b\<close> is 0.\<close>

definition floordiv :: "int \<Rightarrow> int \<Rightarrow> py_exception + int" where
  "floordiv a b = (if b = 0 then Inl ZeroDivisionError else Inr (a div b))"

subsection \<open>Decoded JSON\<close>

text \<open>
  What \<open>response.json()\<close> returns: \<open>None\<close>, a bool, a number, a string, a list or a
  dict with string keys (in insertion order, as an association list with distinct
  keys). The code only tests numbers for truth and for equality with a string, so a
  number is kept by its value.
\<close>

datatype json =
  JNull | JBool bool | JNum rat | JStr str | JArr "json list" | JObj "(str \<times> json) list"

text \<open>The truth value of an object, as \<open>if x:\<close> and \<open>x and y\<close> take it.\<close>

fun truthy :: "json \<Rightarrow> bool" where
  "truthy JNull = False"
| "truthy (JBool b) = b"
| "truthy (JNum r) = (r \<noteq> 0)"
| "truthy (JStr s) = (s \<noteq> [])"
| "truthy (JArr xs) = (xs \<noteq> [])"
| "truthy (JObj kvs) = (kvs \<noteq> [])"

text \<open>\<open>x.get(key, default)\<close>: only a dict has the method.\<close>

fun dict_get :: "json \<Rightarrow> str \<Rightarrow> json \<Rightarrow> py_exception + json" where
  "dict_get (JObj kvs) key dflt = Inr (case map_of kvs key of Some v \<Rightarrow> v | None \<Rightarrow> dflt)"
| "dict_get x key dflt = Inl AttributeError"

text \<open>\<open>x[key]\<close> with a string key.\<close>

fun subscript_str :: "json \<Rightarrow> str \<Rightarrow> py_exception + json" where
  "subscript_str (JObj kvs) key = (case map_of kvs key of Some v \<Rightarrow> Inr v | None \<Rightarrow> Inl KeyError)"
| "subscript_str x key = Inl TypeError"

text \<open>
  \<open>x[0]\<close>. A decoded JSON object has string keys only, so the key 0 is never in it.
\<close>

fun subscript_0 :: "json \<Rightarrow> py_exception + json" where
  "subscript_0 (JArr []) = Inl IndexError"
| "subscript_0 (JArr (x # xs)) = Inr x"
| "subscript_0 (JStr []) = Inl IndexError"
| "subscript_0 (JStr (c # cs)) = Inr (JStr [c])"
| "subscript_0 (JObj kvs) = Inl KeyError"
| "subscript_0 x = Inl TypeError"

text \<open>\<open>list(x.keys())\<close>\<close>

fun keys_list :: "json \<Rightarrow> py_exception + str list" where
  "keys_list (JObj kvs) = Inr (map fst kvs)"
| "keys_list x = Inl AttributeError"

text \<open>The elements \<open>for v in x\<close> runs through.\<close>

fun iterate :: "json \<Rightarrow> py_exception + json list" where
  "iterate (JArr xs) = Inr xs"
| "iterate (JObj kvs) = Inr (map (\<lambda>kv. JStr (fst kv)) kvs)"
| "iterate (JStr s) = Inr (map (\<lambda>c. JStr [c]) s)"
| "iterate x = Inl TypeError"

text \<open>The truth value of an \<open>Optional[str]\<close>.\<close>

fun truthy_opt :: "str option \<Rightarrow> bool" where
  "truthy_opt None = False"
| "truthy_opt (Some s) = (s \<noteq> [])"

text \<open>An \<open>Optional[str]\<close> as an object, for \<open>!=\<close> against a decoded value.\<close>

fun obj_of_opt :: "str option \<Rightarrow> json" where
  "obj_of_opt None = JNull"
| "obj_of_opt (Some s) = JStr s"

subsection \<open>The network\<close>

text \<open>
  The requests main.py sends, and what comes back: \<open>requests.get\<close>/\<open>requests.post\<close>
  raises (\<open>RequestFailed\<close>: no connection, timeout, ...), or returns a response with a
  status code and a body; the body is \<open>None\<close> when \<open>response.json()\<close> raises on it.
  The network is a parameter: it answers the \<open>i\<close>-th request of a run. A run carries the
  list of the requests sent so far.
\<close>

datatype http_request = GET str | POST str json

datatype http_outcome = RequestFailed | Response int "json option"

type_synonym network = "nat \<Rightarrow> http_request \<Rightarrow> http_outcome"

type_synonym trace = "http_request list"

definition send :: "network \<Rightarrow> trace \<Rightarrow> http_request \<Rightarrow> http_outcome \<times> trace" where
  "send net tr rq = (net (length tr) rq, tr @ [rq])"

section \<open>The health evaluator\<close>

text \<open>\<open>calculate_health_score\<close> (main.py, lines 153-164).\<close>

definition calculate_health_score :: "bool \<Rightarrow> int \<Rightarrow> bool \<Rightarrow> int" where
  "calculate_health_score is_outdated vuln_count is_deprecated =
     (let score = 100;
          score = (if is_outdated then score - 20 else score);
          score = (if vuln_count > 0 then score - min (vuln_count * 15) 50 else score);
          score = (if is_deprecated then score - 30 else score)
      in max score 0)"

text \<open>\<open>get_recommendation\<close> (main.py, lines 166-175), with the literals of the source.\<close>

definition msg_deprecated :: str where
  "msg_deprecated =
     [9888, 65039] @ u '' CRITICAL: Package is deprecated. Find an alternative immediately.''"

definition msg_urgent :: "int \<Rightarrow> str" where
  "msg_urgent vuln_count =
     [128680] @ u '' URGENT: '' @ str_int vuln_count @
     u '' vulnerabilities found. Update immediately.''"

definition msg_outdated :: str where
  "msg_outdated = [9889] @ u '' Update recommended to latest version.''"

definition msg_healthy :: str where
  "msg_healthy = [9989] @ u '' Package is healthy and up-to-date.''"

definition get_recommendation :: "int \<Rightarrow> bool \<Rightarrow> int \<Rightarrow> bool \<Rightarrow> str" where
  "get_recommendation health_score is_outdated vuln_count is_deprecated =
     (if is_deprecated then msg_deprecated
      else if vuln_count > 0 then msg_urgent vuln_count
      else if is_outdated then msg_outdated
      else msg_healthy)"

section \<open>Request models and dicts (main.py, lines 17-28)\<close>

record PackageDependency =
  name :: str
  version :: "str option"

record NpmDependenciesRequest =
  dependencies :: "(str \<times> str) list option"
  devDependencies :: "(str \<times> str) list option"

text \<open>One entry of the list \<open>check_vulnerabilities_osv\<close> returns (a dict with four keys).\<close>

record vulnerability =
  vuln_id :: json
  summary :: json
  severity :: json
  published :: json

text \<open>
  The dict a registry lookup returns: the keys \<open>latest_version\<close> and \<open>is_outdated\<close>
  always, \<open>releases\<close> from PyPI only, \<open>deprecated\<close> from npm only (\<open>None\<close>: no such key).
\<close>

record pkg_info =
  info_latest_version :: json
  info_is_outdated :: bool
  info_releases :: "str list option"
  info_deprecated :: "json option"

section \<open>The registry and vulnerability lookups\<close>

text \<open>
  Each lookup is one request and a \<open>try\<close> block around it and around the decoding of
  the answer. The block is modelled as a function of the request's outcome that returns
  the exception it raises (\<open>Inl\<close>), or what it returns: \<open>Some\<close> dict from the
  \<open>return\<close> inside the \<open>if\<close>, \<open>None\<close> when the status is not 200 and control falls
  through. The \<open>except Exception\<close> clause only prints; printing is not modelled.
\<close>

definition neutral_pypi :: pkg_info where
  "neutral_pypi =
     \<lparr>info_latest_version = JNull, info_is_outdated = False,
      info_releases = Some [], info_deprecated = None\<rparr>"

definition neutral_npm :: pkg_info where
  "neutral_npm =
     \<lparr>info_latest_version = JNull, info_is_outdated = False,
      info_releases = None, info_deprecated = Some (JBool False)\<rparr>"

text \<open>\<open>check_pypi_package\<close> (main.py, lines 86-102): the \<open>try\<close> block, lines 89-98.\<close>

definition pypi_try :: "http_outcome \<Rightarrow> str option \<Rightarrow> py_exception + pkg_info option" where
  "pypi_try outcome current_version =
     (case outcome of
        RequestFailed \<Rightarrow> Inl RequestException
      | Response status_code body \<Rightarrow>
          if status_code = 200 then
            (case body of
               None \<Rightarrow> Inl JSONDecodeError
             | Some data \<Rightarrow>
                 bind_exc (subscript_str data (u ''info'')) (\<lambda>info.
                 bind_exc (subscript_str info (u ''version'')) (\<lambda>latest.
                 bind_exc (dict_get data (u ''releases'') (JObj [])) (\<lambda>rel.
                 bind_exc (keys_list rel) (\<lambda>ks.
                   Inr (Some
                     \<lparr>info_latest_version = latest,
                      info_is_outdated =
                        (if truthy_opt current_version
                         then obj_of_opt current_version \<noteq> latest else False),
                      info_releases = Some ks,
                      info_deprecated = None\<rparr>))))))
          else Inr None)"

definition check_pypi_package ::
  "network \<Rightarrow> trace \<Rightarrow> str \<Rightarrow> str option \<Rightarrow> pkg_info \<times> trace" where
  "check_pypi_package net tr package_name current_version =
     (let (outcome, tr') =
            send net tr (GET (u ''https://pypi.org/pypi/'' @ package_name @ u ''/json''))
      in (case pypi_try outcome current_version of
            Inr (Some info) \<Rightarrow> info
          | Inr None \<Rightarrow> neutral_pypi
          | Inl e \<Rightarrow> neutral_pypi,
          tr'))"

text \<open>\<open>check_npm_package\<close> (main.py, lines 104-120): the \<open>try\<close> block, lines 107-116.\<close>

definition npm_try :: "http_outcome \<Rightarrow> str option \<Rightarrow> py_exception + pkg_info option" where
  "npm_try outcome current_version =
     (case outcome of
        RequestFailed \<Rightarrow> Inl RequestException
      | Response status_code body \<Rightarrow>
          if status_code = 200 then
            (case body of
               None \<Rightarrow> Inl JSONDecodeError
             | Some data \<Rightarrow>
                 bind_exc (dict_get data (u ''dist-tags'') (JObj [])) (\<lambda>tags.
                 bind_exc (dict_get tags (u ''latest'') JNull) (\<lambda>latest.
                 bind_exc (dict_get data (u ''deprecated'') (JBool False)) (\<lambda>dep.
                   Inr (Some
                     \<lparr>info_latest_version = latest,
                      info_is_outdated =
                        (if truthy_opt current_version \<and> truthy latest
                         then obj_of_opt current_version \<noteq> latest else False),
                      info_releases = None,
                      info_deprecated = Some dep\<rparr>)))))
          else Inr None)"

definition check_npm_package ::
  "network \<Rightarrow> trace \<Rightarrow> str \<Rightarrow> str option \<Rightarrow> pkg_info \<times> trace" where
  "check_npm_package net tr package_name current_version =
     (let (outcome, tr') =
            send net tr (GET (u ''https://registry.npmjs.org/'' @ package_name))
      in (case npm_try outcome current_version of
            Inr (Some info) \<Rightarrow> info
          | Inr None \<Rightarrow> neutral_npm
          | Inl e \<Rightarrow> neutral_npm,
          tr'))"

text \<open>
  \<open>check_vulnerabilities_osv\<close> (main.py, lines 122-151). \<open>map_vuln\<close> is the dict
  display of lines 142-147, evaluated key by key.
\<close>

definition map_vuln :: "json \<Rightarrow> py_exception + vulnerability" where
  "map_vuln vuln =
     bind_exc (dict_get vuln (u ''id'') JNull) (\<lambda>i.
     bind_exc (dict_get vuln (u ''summary'') (JStr (u ''No summary available''))) (\<lambda>s.
     bind_exc (dict_get vuln (u ''severity'') JNull) (\<lambda>cond.
     bind_exc
       (if truthy cond then
          bind_exc (dict_get vuln (u ''severity'') (JArr [JObj []])) (\<lambda>sev.
          bind_exc (subscript_0 sev) (\<lambda>first.
            dict_get first (u ''type'') (JStr (u ''UNKNOWN''))))
        else Inr (JStr (u ''UNKNOWN''))) (\<lambda>sev_type.
     bind_exc (dict_get vuln (u ''published'') (JStr [])) (\<lambda>p.
       Inr \<lparr>vuln_id = i, summary = s, severity = sev_type, published = p\<rparr>)))))"

text \<open>
  The loop of lines 141-147 over the advisories still to visit, with the list
  \<open>vulnerabilities\<close> built so far: it returns the exception that ended it, if one did,
  and the list as it stands then.
\<close>

fun append_vulns ::
  "json list \<Rightarrow> vulnerability list \<Rightarrow> py_exception option \<times> vulnerability list" where
  "append_vulns [] acc = (None, acc)"
| "append_vulns (vuln # vulns) acc =
     (case map_vuln vuln of
        Inl e \<Rightarrow> (Some e, acc)
      | Inr v \<Rightarrow> append_vulns vulns (acc @ [v]))"

text \<open>
  The \<open>try\<close> block, lines 126-147: the exception raised in it, if any, and the list
  \<open>vulnerabilities\<close> (initialised before the block, returned after it) at its end.
\<close>

definition osv_try :: "http_outcome \<Rightarrow> py_exception option \<times> vulnerability list" where
  "osv_try outcome =
     (case outcome of
        RequestFailed \<Rightarrow> (Some RequestException, [])
      | Response status_code body \<Rightarrow>
          if status_code = 200 then
            (case body of
               None \<Rightarrow> (Some JSONDecodeError, [])
             | Some data \<Rightarrow>
                 (case dict_get data (u ''vulns'') (JArr []) of
                    Inl e \<Rightarrow> (Some e, [])
                  | Inr vulns \<Rightarrow>
                      (case iterate vulns of
                         Inl e \<Rightarrow> (Some e, [])
                       | Inr vs \<Rightarrow> append_vulns vs [])))
          else (None, []))"

definition osv_payload :: "str \<Rightarrow> str \<Rightarrow> json" where
  "osv_payload package_name ecosystem =
     JObj [(u ''package'',
            JObj [(u ''name'', JStr package_name),
                  (u ''ecosystem'',
                   JStr (if ecosystem = u ''python'' then u ''PyPI'' else u ''npm''))])]"

definition check_vulnerabilities_osv ::
  "network \<Rightarrow> trace \<Rightarrow> str \<Rightarrow> str \<Rightarrow> vulnerability list \<times> trace" where
  "check_vulnerabilities_osv net tr package_name ecosystem =
     (let (outcome, tr') =
            send net tr
              (POST (u ''https://api.osv.dev/v1/query'') (osv_payload package_name ecosystem))
      in (snd (osv_try outcome), tr'))"

section \<open>The parser of Endpoint A (main.py, lines 211-226)\<close>

definition operators :: "str list" where
  "operators = [u ''=='', u ''>='', u ''<='', u ''>'', u ''<'', u ''~='']"

text \<open>
  The \<open>for op in [...]\<close> loop with its \<open>else\<close> branch, over the operators still to
  try. The tuple assignment \<open>name, version = pkg_str.split(op, 1)\<close> raises
  \<open>ValueError\<close> unless the split has exactly two parts.
\<close>

fun scan_operators :: "str list \<Rightarrow> str \<Rightarrow> py_exception + PackageDependency" where
  "scan_operators [] pkg_str = Inr \<lparr>name = pkg_str, version = None\<rparr>"
| "scan_operators (op # ops) pkg_str =
     (if contains pkg_str op then
        (case split1 pkg_str op of
           [nm, ver] \<Rightarrow> Inr \<lparr>name = strip nm, version = Some (strip ver)\<rparr>
         | _ \<Rightarrow> Inl ValueError)
      else scan_operators ops pkg_str)"

text \<open>The \<open>for pkg_str in request.packages\<close> loop: the list \<open>packages\<close> it builds.\<close>

fun parse_packages :: "str list \<Rightarrow> py_exception + PackageDependency list" where
  "parse_packages [] = Inr []"
| "parse_packages (entry # entries) =
     (let pkg_str = strip entry in
      if pkg_str = [] \<or> startswith pkg_str (u ''#'') then parse_packages entries
      else
        bind_exc (scan_operators operators pkg_str) (\<lambda>pkg.
        bind_exc (parse_packages entries) (\<lambda>pkgs. Inr (pkg # pkgs))))"

section \<open>Response models (main.py, lines 30-48)\<close>

text \<open>
  The response models are subclasses of \<open>BaseModel\<close>: their constructors check the
  arguments against the declared field types and raise \<open>ValidationError\<close> on a value
  that does not fit. The constructor is not part of main.py; it is modelled after the
  conversion table of pydantic 2 for the two fields that can receive a decoded value of
  any shape, \<open>latest_version: Optional[str]\<close> (line 33) and \<open>is_deprecated: bool\<close>
  (line 37). Every other argument the endpoints pass already has its declared type.
\<close>

record PackageHealthResponse =
  name' :: str
  current_version :: "str option"
  latest_version :: "str option"
  is_outdated :: bool
  has_vulnerabilities :: bool
  vulnerability_count :: int
  is_deprecated :: bool
  health_score :: int
  recommendation :: str
  vulnerabilities :: "vulnerability list"

record OverallHealthResponse =
  total_packages :: int
  outdated_count :: int
  vulnerable_count :: int
  deprecated_count :: int
  overall_health_score :: int
  packages :: "PackageHealthResponse list"

text \<open>A field of type \<open>Optional[str]\<close>: \<open>None\<close> or a string, nothing else.\<close>

fun validate_optional_str :: "json \<Rightarrow> py_exception + str option" where
  "validate_optional_str JNull = Inr None"
| "validate_optional_str (JStr s) = Inr (Some s)"
| "validate_optional_str x = Inl ValidationError"

text \<open>Upper-case ASCII letters to lower case, as the comparison of bool strings does.\<close>

definition ascii_lower :: "nat \<Rightarrow> nat" where
  "ascii_lower c = (if 65 \<le> c \<and> c \<le> 90 then c + 32 else c)"

text \<open>
  A field of type \<open>bool\<close>: a bool; the numbers 0 and 1; one of the strings \<open>0\<close>,
  \<open>off\<close>, \<open>f\<close>, \<open>false\<close>, \<open>n\<close>, \<open>no\<close> (false) and \<open>1\<close>, \<open>on\<close>, \<open>t\<close>,
  \<open>true\<close>, \<open>y\<close>, \<open>yes\<close> (true), in any case. \<open>None\<close>, lists and dicts are rejected.
\<close>

fun validate_bool :: "json \<Rightarrow> py_exception + bool" where
  "validate_bool (JBool b) = Inr b"
| "validate_bool (JNum r) =
     (if r = 0 then Inr False else if r = 1 then Inr True else Inl ValidationError)"
| "validate_bool (JStr s) =
     (if map ascii_lower s \<in> set [u ''0'', u ''off'', u ''f'', u ''false'', u ''n'', u ''no'']
      then Inr False
      else if map ascii_lower s \<in> set [u ''1'', u ''on'', u ''t'', u ''true'', u ''y'', u ''yes'']
      then Inr True
      else Inl ValidationError)"
| "validate_bool x = Inl ValidationError"

section \<open>The endpoints\<close>

text \<open>
  The statements the three endpoints share, word for word (lines 243-248 and 257-268,
  lines 323-328 and 337-348, lines 378-396): from the registry's flags and the list of
  vulnerabilities to the response for one package. \<open>deprecated\<close> is the object the
  endpoint found (\<open>False\<close> for Python). The score and the recommendation are computed
  from its truth value; the constructor then validates \<open>latest\<close> and \<open>deprecated\<close> and
  raises \<open>ValidationError\<close> when one of them is rejected.
\<close>

definition package_health ::
  "PackageDependency \<Rightarrow> json \<Rightarrow> bool \<Rightarrow> vulnerability list \<Rightarrow> json \<Rightarrow>
     py_exception + PackageHealthResponse" where
  "package_health pkg latest outdated vulns deprecated =
     (let has_vulns = length vulns > 0;
          score = calculate_health_score outdated (int (length vulns)) (truthy deprecated);
          advice = get_recommendation score outdated (int (length vulns)) (truthy deprecated)
      in case (validate_optional_str latest, validate_bool deprecated) of
           (Inr latest_field, Inr deprecated_field) \<Rightarrow>
             Inr \<lparr>name' = name pkg,
                  current_version = version pkg,
                  latest_version = latest_field,
                  is_outdated = outdated,
                  has_vulnerabilities = has_vulns,
                  vulnerability_count = int (length vulns),
                  is_deprecated = deprecated_field,
                  health_score = score,
                  recommendation = advice,
                  vulnerabilities = vulns\<rparr>
         | _ \<Rightarrow> Inl ValidationError)"

text \<open>The local variables of the loops over \<open>packages\<close>.\<close>

record tally =
  results :: "PackageHealthResponse list"
  n_outdated :: int
  n_vulnerable :: int
  n_deprecated :: int

definition tally0 :: tally where
  "tally0 = \<lparr>results = [], n_outdated = 0, n_vulnerable = 0, n_deprecated = 0\<rparr>"

text \<open>
  Lines 250-255 and 257 (330-335 and 337): the counters and \<open>results.append\<close>. The
  deprecated counter goes by the truth value of the object the endpoint found, not by the
  validated field.
\<close>

definition count_package :: "tally \<Rightarrow> PackageHealthResponse \<Rightarrow> json \<Rightarrow> tally" where
  "count_package t r deprecated =
     \<lparr>results = results t @ [r],
      n_outdated = (if is_outdated r then n_outdated t + 1 else n_outdated t),
      n_vulnerable = (if has_vulnerabilities r then n_vulnerable t + 1 else n_vulnerable t),
      n_deprecated = (if truthy deprecated then n_deprecated t + 1 else n_deprecated t)\<rparr>"

text \<open>Line 271 and line 351: the overall score of the results.\<close>

definition overall_score :: "PackageHealthResponse list \<Rightarrow> py_exception + int" where
  "overall_score rs =
     (if rs \<noteq> [] then floordiv (sum_list (map health_score rs)) (int (length rs))
      else Inr 0)"

text \<open>Lines 270-280 and 350-360: the response built from the loop's variables.\<close>

definition overall_response :: "tally \<Rightarrow> http_error + OverallHealthResponse" where
  "overall_response t =
     (case overall_score (results t) of
        Inl e \<Rightarrow> Inl (Uncaught e)
      | Inr score \<Rightarrow>
          Inr \<lparr>total_packages = int (length (results t)),
               outdated_count = n_outdated t,
               vulnerable_count = n_vulnerable t,
               deprecated_count = n_deprecated t,
               overall_health_score = score,
               packages = results t\<rparr>)"

definition no_valid_packages :: http_error where
  "no_valid_packages =
     HTTPException 400 (u ''No valid packages found in the provided content'')"

subsection \<open>Endpoint A: \<open>analyze_python_dependencies\<close> (main.py, lines 197-280)\<close>

text \<open>
  The loop of lines 236-268, over the packages still to visit: the exception that ended
  it (a \<open>ValidationError\<close> of the constructor at line 257) or the variables at its end,
  and the requests sent.
\<close>

fun python_loop ::
  "network \<Rightarrow> PackageDependency list \<Rightarrow> tally \<times> trace \<Rightarrow> (py_exception + tally) \<times> trace" where
  "python_loop net [] (t, tr) = (Inr t, tr)"
| "python_loop net (pkg # pkgs) (t, tr) =
     (let (pypi_info, tr1) = check_pypi_package net tr (name pkg) (version pkg);
          (vulns, tr2) = check_vulnerabilities_osv net tr1 (name pkg) (u ''python'')
      in case package_health pkg (info_latest_version pypi_info)
                (info_is_outdated pypi_info) vulns (JBool False) of
           Inl e \<Rightarrow> (Inl e, tr2)
         | Inr r \<Rightarrow> python_loop net pkgs (count_package t r (JBool False), tr2))"

definition analyze_python_dependencies ::
  "network \<Rightarrow> trace \<Rightarrow> str list \<Rightarrow> (http_error + OverallHealthResponse) \<times> trace" where
  "analyze_python_dependencies net tr request_packages =
     (case parse_packages request_packages of
        Inl e \<Rightarrow> (Inl (Uncaught e), tr)
      | Inr pkgs \<Rightarrow>
          if pkgs = [] then (Inl no_valid_packages, tr)
          else (case python_loop net pkgs (tally0, tr) of
                  (Inl e, tr') \<Rightarrow> (Inl (Uncaught e), tr')
                | (Inr t, tr') \<Rightarrow> (overall_response t, tr')))"

subsection \<open>Endpoint B: \<open>analyze_npm_dependencies\<close> (main.py, lines 282-360)\<close>

text \<open>
  A dict of strings is an association list in insertion order. The display
  \<open>{**a, **b}\<close> inserts the items of \<open>a\<close>, then those of \<open>b\<close>: a key already there
  keeps its place and takes the new value.
\<close>

definition dict_unpack :: "(str \<times> str) list \<Rightarrow> (str \<times> str) list \<Rightarrow> (str \<times> str) list" where
  "dict_unpack a b = fold (\<lambda>kv d. AList.update (fst kv) (snd kv) d) (a @ b) []"

text \<open>\<open>x or {}\<close> for an optional dict.\<close>

fun or_empty :: "(str \<times> str) list option \<Rightarrow> (str \<times> str) list" where
  "or_empty None = []"
| "or_empty (Some d) = (if d = [] then [] else d)"

text \<open>
  Line 301. Unpacking \<open>None\<close> with \<open>**\<close> raises \<open>TypeError\<close>; only
  \<open>devDependencies\<close> is guarded by \<open>or {}\<close>.
\<close>

definition all_deps :: "NpmDependenciesRequest \<Rightarrow> py_exception + (str \<times> str) list" where
  "all_deps request =
     (case dependencies request of
        None \<Rightarrow> Inl TypeError
      | Some deps \<Rightarrow> Inr (dict_unpack deps (or_empty (devDependencies request))))"

text \<open>Lines 303-306.\<close>

definition npm_packages :: "(str \<times> str) list \<Rightarrow> PackageDependency list" where
  "npm_packages deps =
     map (\<lambda>kv. \<lparr>name = fst kv, version = Some (lstrip_chars (snd kv) (u ''^~>=<''))\<rparr>) deps"

text \<open>The loop of lines 316-348; the constructor is at line 337.\<close>

fun npm_loop ::
  "network \<Rightarrow> PackageDependency list \<Rightarrow> tally \<times> trace \<Rightarrow> (py_exception + tally) \<times> trace" where
  "npm_loop net [] (t, tr) = (Inr t, tr)"
| "npm_loop net (pkg # pkgs) (t, tr) =
     (let (npm_info, tr1) = check_npm_package net tr (name pkg) (version pkg);
          (vulns, tr2) = check_vulnerabilities_osv net tr1 (name pkg) (u ''npm'');
          deprecated = (case info_deprecated npm_info of Some d \<Rightarrow> d | None \<Rightarrow> JBool False)
      in case package_health pkg (info_latest_version npm_info)
                (info_is_outdated npm_info) vulns deprecated of
           Inl e \<Rightarrow> (Inl e, tr2)
         | Inr r \<Rightarrow> npm_loop net pkgs (count_package t r deprecated, tr2))"

definition analyze_npm_dependencies ::
  "network \<Rightarrow> trace \<Rightarrow> NpmDependenciesRequest \<Rightarrow> (http_error + OverallHealthResponse) \<times> trace" where
  "analyze_npm_dependencies net tr request =
     (case all_deps request of
        Inl e \<Rightarrow> (Inl (Uncaught e), tr)
      | Inr deps \<Rightarrow>
          (let pkgs = npm_packages deps in
           if pkgs = [] then (Inl no_valid_packages, tr)
           else (case npm_loop net pkgs (tally0, tr) of
                   (Inl e, tr') \<Rightarrow> (Inl (Uncaught e), tr')
                 | (Inr t, tr') \<Rightarrow> (overall_response t, tr'))))"

subsection \<open>Endpoint C: \<open>check_single_package\<close> (main.py, lines 362-396)\<close>

definition bad_ecosystem :: http_error where
  "bad_ecosystem =
     HTTPException 400
       (u ''Ecosystem must be '' @ [39] @ u ''python'' @ [39] @ u '' or '' @ [39] @ u ''npm'' @ [39])"

definition check_single_package ::
  "network \<Rightarrow> trace \<Rightarrow> PackageDependency \<Rightarrow> str \<Rightarrow> (http_error + PackageHealthResponse) \<times> trace" where
  "check_single_package net tr package ecosystem =
     (if ecosystem \<notin> set [u ''python'', u ''npm''] then (Inl bad_ecosystem, tr)
      else
        (let (info, tr1) =
               (if ecosystem = u ''python''
                then check_pypi_package net tr (name package) (version package)
                else check_npm_package net tr (name package) (version package));
             (vulns, tr2) = check_vulnerabilities_osv net tr1 (name package) ecosystem
         in case package_health package (info_latest_version info) (info_is_outdated info)
                   vulns
                   (case info_deprecated info of Some d \<Rightarrow> d | None \<Rightarrow> JBool False) of
              Inl e \<Rightarrow> (Inl (Uncaught e), tr2)
            | Inr r \<Rightarrow> (Inr r, tr2)))"

section \<open>Concrete inputs\<close>

text \<open>A network on which every request fails.\<close>

definition net_down :: network where
  "net_down i rq = RequestFailed"

text \<open>A network that gives every request the same outcome.\<close>

definition net_always :: "http_outcome \<Rightarrow> network" where
  "net_always outcome i rq = outcome"

section \<open>Properties of the health evaluator\<close>

lemma decimal_value: "foldl (\<lambda>a d. 10 * a + (d - 48)) 0 (decimal n) = n"
proof (induction n rule: decimal.induct)
  case (1 n)
  show ?case
  proof (cases "n < 10")
    case True
    then show ?thesis by (subst decimal.simps) simp
  next
    case False
    with 1 show ?thesis by (subst decimal.simps) simp
  qed
qed

lemma decimal_inj: "decimal m = decimal n \<Longrightarrow> m = n"
  by (metis decimal_value)

lemma str_int_inj_pos: "0 \<le> a \<Longrightarrow> 0 \<le> b \<Longrightarrow> str_int a = str_int b \<Longrightarrow> a = b"
  by (auto simp: str_int_def dest: decimal_inj)

text \<open>
  C1: for every outdated flag, vulnerability count and deprecated flag, the score is
  100 minus 20 when outdated, minus min(count * 15, 50) when the count is positive, minus
  30 when deprecated, floored at 0; the penalties add up, and the score is never
  negative. Stated for every integer count, which covers the natural numbers.
\<close>

theorem calculate_health_score_formula:
  "calculate_health_score outdated n deprecated =
     max 0 (100 - (if outdated then 20 else 0)
                - (if n > 0 then min (n * 15) 50 else 0)
                - (if deprecated then 30 else 0))
   \<and> 0 \<le> calculate_health_score outdated n deprecated"
  unfolding calculate_health_score_def Let_def
  by (cases outdated; cases deprecated; cases "n > 0") simp_all

text \<open>
  C2: the recommendation is chosen by priority, whatever the numeric score is: the
  deprecation message when deprecated (whatever the count and the outdated flag); else the
  urgent message, which carries the decimal rendering of the exact count, when the count
  is positive; else the update message when outdated; else the healthy message. The
  four kinds of message never coincide, and urgent messages for different counts differ.
\<close>

theorem get_recommendation_priority:
  "(deprecated \<longrightarrow>
      get_recommendation score outdated n deprecated = msg_deprecated)
   \<and> (\<not> deprecated \<and> n > 0 \<longrightarrow>
      get_recommendation score outdated n deprecated =
        [128680] @ u '' URGENT: '' @ str_int n @
        u '' vulnerabilities found. Update immediately.'')
   \<and> (\<not> deprecated \<and> \<not> n > 0 \<and> outdated \<longrightarrow>
      get_recommendation score outdated n deprecated = msg_outdated)
   \<and> (\<not> deprecated \<and> \<not> n > 0 \<and> \<not> outdated \<longrightarrow>
      get_recommendation score outdated n deprecated = msg_healthy)
   \<and> get_recommendation score outdated n deprecated =
       get_recommendation score' outdated n deprecated
   \<and> (0 < n \<and> 0 < m \<and> msg_urgent n = msg_urgent m \<longrightarrow> n = m)
   \<and> distinct [msg_deprecated, msg_urgent n, msg_outdated, msg_healthy]"
proof -
  have count: "n = m"
    if "0 < n" "0 < m" "msg_urgent n = msg_urgent m"
  proof -
    from that(3) have "str_int n = str_int m"
      by (simp add: msg_urgent_def)
    with that(1,2) show ?thesis
      using str_int_inj_pos [of n m] by simp
  qed
  have kinds: "distinct [msg_deprecated, msg_urgent n, msg_outdated, msg_healthy]"
    by (simp add: msg_deprecated_def msg_urgent_def msg_outdated_def msg_healthy_def)
  show ?thesis
    using count kinds by (simp add: get_recommendation_def msg_urgent_def)
qed

theorem get_recommendation_priority_witness:
  "get_recommendation 0 True 4 True = msg_deprecated
   \<and> get_recommendation 30 True 4 False =
       [128680] @ u '' URGENT: 4 vulnerabilities found. Update immediately.''
   \<and> get_recommendation 80 True 0 False = msg_outdated
   \<and> get_recommendation 100 False 0 False = msg_healthy
   \<and> msg_urgent 4 \<noteq> msg_urgent 5
   \<and> get_recommendation 0 True 4 True =
       [9888, 65039] @ u '' CRITICAL: Package is deprecated. Find an alternative immediately.''
   \<and> get_recommendation 10 False 12 False =
       [128680] @ u '' URGENT: 12 vulnerabilities found. Update immediately.''
   \<and> get_recommendation 80 True 0 False = [9889] @ u '' Update recommended to latest version.''
   \<and> get_recommendation 100 False 0 False = [9989] @ u '' Package is healthy and up-to-date.''"
proof -
  have four: "str_int 4 = u ''4''" and five: "str_int 5 = u ''5''"
    and twelve: "str_int 12 = u ''12''"
    by (simp_all add: str_int_def decimal.simps u_def)
  have "get_recommendation 0 True 4 True = msg_deprecated"
    using get_recommendation_priority [of True 0 True 4 0 4] by simp
  moreover have "get_recommendation 30 True 4 False =
      [128680] @ u '' URGENT: 4 vulnerabilities found. Update immediately.''"
    using get_recommendation_priority [of False 30 True 4 0 4] four by (simp add: u_def)
  moreover have "get_recommendation 80 True 0 False = msg_outdated"
    using get_recommendation_priority [of False 80 True 0 0 0] by simp
  moreover have "get_recommendation 100 False 0 False = msg_healthy"
    using get_recommendation_priority [of False 100 False 0 0 0] by simp
  moreover have "msg_urgent 4 \<noteq> msg_urgent 5"
    using get_recommendation_priority [of False 0 False 4 0 5] by auto
  moreover have "get_recommendation 0 True 4 True =
       [9888, 65039] @ u '' CRITICAL: Package is deprecated. Find an alternative immediately.''"
    using get_recommendation_priority [of True 0 True 4 0 4] by (simp add: msg_deprecated_def)
  moreover have "get_recommendation 10 False 12 False =
       [128680] @ u '' URGENT: 12 vulnerabilities found. Update immediately.''"
    using get_recommendation_priority [of False 10 False 12 0 12] twelve by (simp add: u_def)
  moreover have "get_recommendation 80 True 0 False =
       [9889] @ u '' Update recommended to latest version.''"
    using get_recommendation_priority [of False 80 True 0 0 0] by (simp add: msg_outdated_def)
  moreover have "get_recommendation 100 False 0 False =
       [9989] @ u '' Package is healthy and up-to-date.''"
    using get_recommendation_priority [of False 100 False 0 0 0] by (simp add: msg_healthy_def)
  ultimately show ?thesis by blast
qed

text \<open>
  C9: the score never increases when one more vulnerability is added, when the package
  becomes deprecated, or when it becomes outdated.
\<close>

theorem calculate_health_score_monotone:
  "calculate_health_score outdated (n + 1) deprecated
     \<le> calculate_health_score outdated n deprecated
   \<and> calculate_health_score outdated n True
     \<le> calculate_health_score outdated n False
   \<and> calculate_health_score True n deprecated
     \<le> calculate_health_score False n deprecated"
proof (intro conjI)
  show "calculate_health_score outdated (n + 1) deprecated
     \<le> calculate_health_score outdated n deprecated"
    unfolding calculate_health_score_def Let_def
    by (cases outdated; cases deprecated) (simp_all add: min_def)
  show "calculate_health_score outdated n True
     \<le> calculate_health_score outdated n False"
    unfolding calculate_health_score_def Let_def by simp
  show "calculate_health_score True n deprecated
     \<le> calculate_health_score False n deprecated"
    unfolding calculate_health_score_def Let_def by simp
qed

section \<open>Properties of the parser and of the aggregation\<close>

lemma overall_score_total:
  "overall_score rs = Inr (if rs = [] then 0 else sum_list (map health_score rs) div int (length rs))"
  by (simp add: overall_score_def floordiv_def)

lemma floor_average:
  "\<lfloor>real_of_int a / real n\<rfloor> = a div int n"
proof -
  have "real n = real_of_int (int n)" by simp
  then show ?thesis by (simp only: floor_divide_of_int_eq)
qed

lemma overall_response_score:
  "\<exists>resp. overall_response t = Inr resp \<and> packages resp = results t \<and>
     total_packages resp = int (length (results t)) \<and>
     overall_health_score resp =
       (if results t = [] then 0
        else sum_list (map health_score (results t)) div int (length (results t)))"
  by (simp add: overall_response_def overall_score_total)

lemma python_loop_length:
  "python_loop net pkgs (t, tr) = (Inr t', tr') \<Longrightarrow>
     length (results t') = length (results t) + length pkgs"
proof (induction pkgs arbitrary: t tr)
  case Nil
  then show ?case by simp
next
  case (Cons pkg pkgs)
  then show ?case
    by (auto simp: count_package_def split: prod.splits sum.splits)
qed

lemma npm_loop_length:
  "npm_loop net pkgs (t, tr) = (Inr t', tr') \<Longrightarrow>
     length (results t') = length (results t) + length pkgs"
proof (induction pkgs arbitrary: t tr)
  case Nil
  then show ?case by simp
next
  case (Cons pkg pkgs)
  then show ?case
    by (auto simp: count_package_def Let_def split: prod.splits sum.splits)
qed

lemma analyze_python_score:
  assumes "fst (analyze_python_dependencies net tr entries) = Inr resp"
  shows "packages resp \<noteq> [] \<and>
    overall_health_score resp =
      sum_list (map health_score (packages resp)) div int (length (packages resp))"
proof -
  from assms obtain pkgs where p: "parse_packages entries = Inr pkgs" "pkgs \<noteq> []"
    by (auto simp: analyze_python_dependencies_def split: sum.splits if_splits)
  obtain out tr' where l: "python_loop net pkgs (tally0, tr) = (out, tr')"
    by (cases "python_loop net pkgs (tally0, tr)")
  from assms p l obtain t where t: "out = Inr t" "overall_response t = Inr resp"
    by (cases out) (simp_all add: analyze_python_dependencies_def)
  from python_loop_length [OF l [unfolded t(1)]] p(2) have ne: "results t \<noteq> []"
    by auto
  from overall_response_score [of t] t(2) ne show ?thesis
    by auto
qed

lemma analyze_npm_score:
  assumes "fst (analyze_npm_dependencies net tr request) = Inr resp"
  shows "packages resp \<noteq> [] \<and>
    overall_health_score resp =
      sum_list (map health_score (packages resp)) div int (length (packages resp))"
proof -
  from assms obtain deps where p: "all_deps request = Inr deps" "npm_packages deps \<noteq> []"
    by (auto simp: analyze_npm_dependencies_def Let_def split: sum.splits if_splits)
  obtain out tr' where l: "npm_loop net (npm_packages deps) (tally0, tr) = (out, tr')"
    by (cases "npm_loop net (npm_packages deps) (tally0, tr)")
  from assms p l obtain t where t: "out = Inr t" "overall_response t = Inr resp"
    by (cases out) (simp_all add: analyze_npm_dependencies_def)
  from npm_loop_length [OF l [unfolded t(1)]] p(2) have ne: "results t \<noteq> []"
    by auto
  from overall_response_score [of t] t(2) ne show ?thesis
    by auto
qed

lemma find_str_occurrence:
  "find_str s p = Some i \<Longrightarrow> s = take i s @ p @ drop (i + length p) s"
proof (induction s arbitrary: i)
  case Nil
  then show ?case by (simp split: if_splits)
next
  case (Cons c s)
  show ?case
  proof (cases "startswith (c # s) p")
    case True
    with Cons.prems have "i = 0" by simp
    moreover from True have "c # s = p @ drop (length p) (c # s)"
      unfolding startswith_def by (metis append_take_drop_id)
    ultimately show ?thesis by simp
  next
    case False
    with Cons.prems obtain k where k: "find_str s p = Some k" "i = Suc k"
      by auto
    from Cons.IH [OF k(1)] k(2) show ?thesis by simp
  qed
qed

lemma find_str_leftmost:
  "find_str s p = Some i \<Longrightarrow> s = pre @ p @ post \<Longrightarrow> i \<le> length pre"
proof (induction s arbitrary: i pre)
  case Nil
  then show ?case by (simp split: if_splits)
next
  case (Cons c s)
  show ?case
  proof (cases "startswith (c # s) p")
    case True
    with Cons.prems(1) have "i = 0" by simp
    then show ?thesis by simp
  next
    case False
    with Cons.prems(1) obtain k where k: "find_str s p = Some k" "i = Suc k"
      by auto
    from False Cons.prems(2) have "pre \<noteq> []"
      by (auto simp: startswith_def)
    then obtain pre' where pre: "pre = c # pre'"
      using Cons.prems(2) by (cases pre) auto
    with Cons.prems(2) have "s = pre' @ p @ post" by simp
    from Cons.IH [OF k(1) this] k(2) pre show ?thesis by simp
  qed
qed

lemma find_str_complete:
  "s = pre @ p @ post \<Longrightarrow> find_str s p \<noteq> None"
proof (induction s arbitrary: pre)
  case Nil
  then show ?case by simp
next
  case (Cons c s)
  show ?case
  proof (cases "startswith (c # s) p")
    case True
    then show ?thesis by simp
  next
    case False
    with Cons.prems have "pre \<noteq> []"
      by (auto simp: startswith_def)
    then obtain pre' where "pre = c # pre'"
      using Cons.prems by (cases pre) auto
    with Cons.prems have "s = pre' @ p @ post" by simp
    from Cons.IH [OF this] False show ?thesis by simp
  qed
qed

lemma contains_iff_sublist: "contains s p \<longleftrightarrow> sublist p s"
proof
  assume "contains s p"
  then obtain i where "find_str s p = Some i"
    by (auto simp: contains_def)
  from find_str_occurrence [OF this] show "sublist p s"
    unfolding sublist_def by blast
next
  assume "sublist p s"
  then obtain pre post where "s = pre @ p @ post"
    unfolding sublist_def by blast
  from find_str_complete [OF this] show "contains s p"
    by (simp add: contains_def)
qed

lemma scan_operators_none:
  "\<forall>op \<in> set ops. \<not> contains s op \<Longrightarrow>
     scan_operators ops s = Inr \<lparr>name = s, version = None\<rparr>"
  by (induction ops) simp_all

lemma scan_operators_found:
  "i < length ops \<Longrightarrow> \<forall>j<i. \<not> contains s (ops ! j) \<Longrightarrow> find_str s (ops ! i) = Some k \<Longrightarrow>
     scan_operators ops s =
       Inr \<lparr>name = strip (take k s), version = Some (strip (drop (k + length (ops ! i)) s))\<rparr>"
proof (induction ops arbitrary: i)
  case Nil
  then show ?case by simp
next
  case (Cons op ops)
  show ?case
  proof (cases i)
    case 0
    with Cons.prems(3) show ?thesis
      by (simp add: contains_def split1_def)
  next
    case (Suc i')
    with Cons.prems(2) have "\<not> contains s op" by auto
    moreover from Suc Cons.prems have "i' < length ops" "\<forall>j<i'. \<not> contains s (ops ! j)"
      "find_str s (ops ! i') = Some k"
      by auto
    ultimately show ?thesis
      using Cons.IH [of i'] Suc by simp
  qed
qed

lemma first_operator:
  assumes "\<exists>op \<in> set ops. contains s op"
  shows "\<exists>i<length ops. contains s (ops ! i) \<and> (\<forall>j<i. \<not> contains s (ops ! j))"
proof -
  let ?P = "\<lambda>i. i < length ops \<and> contains s (ops ! i)"
  from assms obtain i0 where "?P i0"
    by (auto simp: in_set_conv_nth)
  define i where "i = (LEAST i. ?P i)"
  have "?P i" unfolding i_def using \<open>?P i0\<close> by (rule LeastI)
  moreover have "\<not> contains s (ops ! j)" if "j < i" for j
  proof
    assume "contains s (ops ! j)"
    with that \<open>?P i\<close> have "?P j" by simp
    then have "i \<le> j" unfolding i_def by (rule Least_le)
    with that show False by simp
  qed
  ultimately show ?thesis by blast
qed

lemma scan_operators_total: "\<exists>d. scan_operators ops s = Inr d"
proof (cases "\<exists>op \<in> set ops. contains s op")
  case True
  from first_operator [OF True] obtain i where i: "i < length ops" "contains s (ops ! i)"
    "\<forall>j<i. \<not> contains s (ops ! j)"
    by blast
  from i(2) obtain k where "find_str s (ops ! i) = Some k"
    by (auto simp: contains_def)
  from scan_operators_found [OF i(1) i(3) this] show ?thesis by blast
next
  case False
  then show ?thesis using scan_operators_none [of ops s] by blast
qed

lemma parse_packages_total: "\<exists>pkgs. parse_packages entries = Inr pkgs"
proof (induction entries)
  case Nil
  then show ?case by simp
next
  case (Cons entry entries)
  then obtain pkgs where "parse_packages entries = Inr pkgs" by blast
  moreover obtain d where "scan_operators operators (strip entry) = Inr d"
    using scan_operators_total by blast
  ultimately show ?case by (simp add: Let_def bind_exc_def)
qed

lemma parse_packages_append:
  "parse_packages es1 = Inr ps1 \<Longrightarrow> parse_packages es2 = Inr ps2 \<Longrightarrow>
     parse_packages (es1 @ es2) = Inr (ps1 @ ps2)"
proof (induction es1 arbitrary: ps1)
  case Nil
  then show ?case by simp
next
  case (Cons e es1)
  obtain qs where qs: "parse_packages es1 = Inr qs"
    using parse_packages_total by blast
  obtain d where d: "scan_operators operators (strip e) = Inr d"
    using scan_operators_total by blast
  from Cons.IH [OF qs Cons.prems(2)] Cons.prems(1) qs d show ?case
    by (auto simp: Let_def bind_exc_def split: if_splits)
qed

lemma parse_packages_single:
  "strip entry \<noteq> [] \<Longrightarrow> \<not> startswith (strip entry) (u ''#'') \<Longrightarrow>
     scan_operators operators (strip entry) = Inr d \<Longrightarrow> parse_packages [entry] = Inr [d]"
  by (simp add: Let_def bind_exc_def)

lemma parse_packages_skip:
  "strip entry = [] \<or> startswith (strip entry) (u ''#'') \<Longrightarrow> parse_packages [entry] = Inr []"
  by (auto simp: Let_def)


lemma no_valid_packages_not_uncaught: "no_valid_packages \<noteq> Uncaught e"
  by (simp add: no_valid_packages_def)

lemma package_health_error: "package_health pkg latest outdated vulns deprecated = Inl e \<Longrightarrow> e = ValidationError"
  by (auto simp: package_health_def Let_def split: sum.splits)

lemma python_loop_error: "python_loop net pkgs (t, tr) = (Inl e, tr') \<Longrightarrow> e = ValidationError"
proof (induction pkgs arbitrary: t tr)
  case Nil
  then show ?case by simp
next
  case (Cons pkg pkgs)
  then show ?case
    by (auto split: prod.splits sum.splits dest: package_health_error)
qed

lemma npm_loop_error: "npm_loop net pkgs (t, tr) = (Inl e, tr') \<Longrightarrow> e = ValidationError"
proof (induction pkgs arbitrary: t tr)
  case Nil
  then show ?case by simp
next
  case (Cons pkg pkgs)
  then show ?case
    by (auto simp: Let_def split: prod.splits sum.splits dest: package_health_error)
qed

lemma analyze_python_cases:
  "fst (analyze_python_dependencies net tr entries) = Inl no_valid_packages
   \<or> fst (analyze_python_dependencies net tr entries) = Inl (Uncaught ValidationError)
   \<or> (\<exists>resp. fst (analyze_python_dependencies net tr entries) = Inr resp)"
proof -
  obtain pkgs where p: "parse_packages entries = Inr pkgs"
    using parse_packages_total by blast
  obtain out tr' where l: "python_loop net pkgs (tally0, tr) = (out, tr')"
    by (cases "python_loop net pkgs (tally0, tr)")
  show ?thesis
  proof (cases out)
    case (Inl e)
    with l have "e = ValidationError" by (auto dest: python_loop_error)
    with p l Inl show ?thesis
      by (simp add: analyze_python_dependencies_def)
  next
    case (Inr t)
    obtain resp where "overall_response t = Inr resp"
      using overall_response_score by blast
    with p l Inr show ?thesis
      by (simp add: analyze_python_dependencies_def)
  qed
qed

lemma analyze_npm_cases:
  "fst (analyze_npm_dependencies net tr request) = Inl (Uncaught TypeError)
   \<or> fst (analyze_npm_dependencies net tr request) = Inl no_valid_packages
   \<or> fst (analyze_npm_dependencies net tr request) = Inl (Uncaught ValidationError)
   \<or> (\<exists>resp. fst (analyze_npm_dependencies net tr request) = Inr resp)"
proof (cases "dependencies request")
  case None
  then show ?thesis
    by (simp add: analyze_npm_dependencies_def all_deps_def)
next
  case (Some deps)
  then obtain merged where m: "all_deps request = Inr merged"
    by (simp add: all_deps_def)
  obtain out tr' where l: "npm_loop net (npm_packages merged) (tally0, tr) = (out, tr')"
    by (cases "npm_loop net (npm_packages merged) (tally0, tr)")
  show ?thesis
  proof (cases out)
    case (Inl e)
    with l have "e = ValidationError" by (auto dest: npm_loop_error)
    with m l Inl show ?thesis
      by (simp add: analyze_npm_dependencies_def Let_def)
  next
    case (Inr t)
    obtain resp where "overall_response t = Inr resp"
      using overall_response_score by blast
    with m l Inr show ?thesis
      by (simp add: analyze_npm_dependencies_def Let_def)
  qed
qed

lemmas str_defs = u_def strip_def lstrip_def rstrip_def isspace_def startswith_def
  contains_def split1_def operators_def bind_exc_def

lemmas lookup_defs = check_pypi_package_def check_npm_package_def
  check_vulnerabilities_osv_def send_def pypi_try_def npm_try_def osv_try_def
  neutral_pypi_def neutral_npm_def

text \<open>
  C3: the overall score is the floor of the average of the per-package scores, and 0 for
  no results; the computation never raises a division error. Three results scoring 100,
  50 and 30 give 60. The score of every response of Endpoint A and of Endpoint B is
  that floor, over a non-empty list of packages.
\<close>

theorem overall_score_floor_average:
  "overall_score rs =
     Inr (if rs = [] then 0
          else \<lfloor>real_of_int (sum_list (map health_score rs)) / real (length rs)\<rfloor>)
   \<and> (map health_score rs = [100, 50, 30] \<longrightarrow> overall_score rs = Inr 60)
   \<and> (fst (analyze_python_dependencies net tr entries) = Inr resp \<longrightarrow>
        packages resp \<noteq> [] \<and>
        overall_health_score resp =
          \<lfloor>real_of_int (sum_list (map health_score (packages resp)))
             / real (length (packages resp))\<rfloor>)
   \<and> (fst (analyze_npm_dependencies net tr request) = Inr resp' \<longrightarrow>
        packages resp' \<noteq> [] \<and>
        overall_health_score resp' =
          \<lfloor>real_of_int (sum_list (map health_score (packages resp')))
             / real (length (packages resp'))\<rfloor>)
   \<and> fst (analyze_python_dependencies net tr entries) \<noteq> Inl (Uncaught ZeroDivisionError)
   \<and> fst (analyze_npm_dependencies net tr request) \<noteq> Inl (Uncaught ZeroDivisionError)"
proof (intro conjI impI)
  show "overall_score rs =
     Inr (if rs = [] then 0
          else \<lfloor>real_of_int (sum_list (map health_score rs)) / real (length rs)\<rfloor>)"
    by (simp only: overall_score_total floor_average)
  show "overall_score rs = Inr 60" if "map health_score rs = [100, 50, 30]"
  proof -
    from that have "length (map health_score rs) = 3" by simp
    then have "length rs = 3" by simp
    with that show ?thesis by (auto simp: overall_score_total)
  qed
  show "packages resp \<noteq> []"
    if "fst (analyze_python_dependencies net tr entries) = Inr resp"
    using analyze_python_score [OF that] by simp
  show "overall_health_score resp =
          \<lfloor>real_of_int (sum_list (map health_score (packages resp)))
             / real (length (packages resp))\<rfloor>"
    if "fst (analyze_python_dependencies net tr entries) = Inr resp"
    using analyze_python_score [OF that] by (simp only: floor_average)
  show "packages resp' \<noteq> []"
    if "fst (analyze_npm_dependencies net tr request) = Inr resp'"
    using analyze_npm_score [OF that] by simp
  show "overall_health_score resp' =
          \<lfloor>real_of_int (sum_list (map health_score (packages resp')))
             / real (length (packages resp'))\<rfloor>"
    if "fst (analyze_npm_dependencies net tr request) = Inr resp'"
    using analyze_npm_score [OF that] by (simp only: floor_average)
  show "fst (analyze_python_dependencies net tr entries) \<noteq> Inl (Uncaught ZeroDivisionError)"
    using analyze_python_cases [of net tr entries] no_valid_packages_not_uncaught by auto
  show "fst (analyze_npm_dependencies net tr request) \<noteq> Inl (Uncaught ZeroDivisionError)"
    using analyze_npm_cases [of net tr request] no_valid_packages_not_uncaught by auto
qed


text \<open>
  C4: take an entry, anywhere in a batch, that is not empty after trimming and is not a
  comment. The parser yields exactly one dependency for it, between the dependencies of
  the entries before it and of those after it. If some operator of the list \<open>==\<close>,
  \<open>>=\<close>, \<open><=\<close>, \<open>>\<close>, \<open><\<close>, \<open>~=\<close> occurs in the trimmed entry, the first such
  operator in that order is taken, the entry is split at its leftmost occurrence, and
  name and version are the trimmed parts before and after it; otherwise the whole trimmed
  entry is the name and there is no version.
\<close>

theorem parse_packages_entry:
  assumes "strip entry = s" and "s \<noteq> []" and "\<not> startswith s (u ''#'')"
  shows "\<exists>ps1 ps2 d.
    parse_packages es1 = Inr ps1 \<and> parse_packages es2 = Inr ps2 \<and>
    parse_packages (es1 @ [entry] @ es2) = Inr (ps1 @ [d] @ ps2) \<and>
    (let ops = [u ''=='', u ''>='', u ''<='', u ''>'', u ''<'', u ''~='']
     in if \<exists>op \<in> set ops. sublist op s
        then \<exists>i pre post. i < length ops \<and> s = pre @ ops ! i @ post \<and>
               (\<forall>j<i. \<not> sublist (ops ! j) s) \<and>
               (\<forall>pre' post'. s = pre' @ ops ! i @ post' \<longrightarrow> length pre \<le> length pre') \<and>
               d = \<lparr>name = strip pre, version = Some (strip post)\<rparr>
        else d = \<lparr>name = s, version = None\<rparr>)"
proof -
  obtain ps1 where ps1: "parse_packages es1 = Inr ps1"
    using parse_packages_total by blast
  obtain ps2 where ps2: "parse_packages es2 = Inr ps2"
    using parse_packages_total by blast
  have batch: "parse_packages (es1 @ [entry] @ es2) = Inr (ps1 @ [d] @ ps2)"
    if "parse_packages [entry] = Inr [d]" for d
  proof -
    have "parse_packages ([entry] @ es2) = Inr ([d] @ ps2)"
      by (rule parse_packages_append [OF that ps2])
    then show ?thesis
      by (rule parse_packages_append [OF ps1])
  qed
  have ops: "[u ''=='', u ''>='', u ''<='', u ''>'', u ''<'', u ''~=''] = operators"
    by (simp add: operators_def)
  show ?thesis
  proof (cases "\<exists>op \<in> set operators. sublist op s")
    case True
    then have "\<exists>op \<in> set operators. contains s op"
      by (simp add: contains_iff_sublist)
    from first_operator [OF this] obtain i where i: "i < length operators"
      "contains s (operators ! i)" "\<forall>j<i. \<not> contains s (operators ! j)"
      by blast
    from i(2) obtain k where k: "find_str s (operators ! i) = Some k"
      by (auto simp: contains_def)
    let ?pre = "take k s" and ?post = "drop (k + length (operators ! i)) s"
    let ?d = "\<lparr>name = strip ?pre, version = Some (strip ?post)\<rparr>"
    have split: "s = ?pre @ operators ! i @ ?post"
      by (rule find_str_occurrence [OF k])
    have "k \<le> length ?pre"
      by (rule find_str_leftmost [OF k split])
    then have len: "length ?pre = k" by simp
    have left: "\<forall>pre' post'. s = pre' @ operators ! i @ post' \<longrightarrow> length ?pre \<le> length pre'"
      using find_str_leftmost [OF k] by (simp only: len) blast
    have "scan_operators operators s = Inr ?d"
      by (rule scan_operators_found [OF i(1) i(3) k])
    then have parsed: "parse_packages [entry] = Inr [?d]"
      using parse_packages_single [of entry ?d] assms by simp
    have prio: "\<forall>j<i. \<not> sublist (operators ! j) s"
      using i(3) by (simp add: contains_iff_sublist)
    have "\<exists>i pre post. i < length operators \<and> s = pre @ operators ! i @ post \<and>
              (\<forall>j<i. \<not> sublist (operators ! j) s) \<and>
              (\<forall>pre' post'. s = pre' @ operators ! i @ post' \<longrightarrow> length pre \<le> length pre') \<and>
              ?d = \<lparr>name = strip pre, version = Some (strip post)\<rparr>"
      using i(1) split prio left by blast
    with True have "if \<exists>op \<in> set operators. sublist op s
        then \<exists>i pre post. i < length operators \<and> s = pre @ operators ! i @ post \<and>
               (\<forall>j<i. \<not> sublist (operators ! j) s) \<and>
               (\<forall>pre' post'. s = pre' @ operators ! i @ post' \<longrightarrow> length pre \<le> length pre') \<and>
               ?d = \<lparr>name = strip pre, version = Some (strip post)\<rparr>
        else ?d = \<lparr>name = s, version = None\<rparr>"
      by (simp only: if_True)
    with ps1 ps2 batch [OF parsed] show ?thesis
      unfolding Let_def ops by blast
  next
    case False
    then have "\<forall>op \<in> set operators. \<not> contains s op"
      by (simp add: contains_iff_sublist)
    then have "scan_operators operators s = Inr \<lparr>name = s, version = None\<rparr>"
      by (rule scan_operators_none)
    then have parsed: "parse_packages [entry] = Inr [\<lparr>name = s, version = None\<rparr>]"
      using parse_packages_single [of entry "\<lparr>name = s, version = None\<rparr>"] assms by simp
    from False have "if \<exists>op \<in> set operators. sublist op s
        then \<exists>i pre post. i < length operators \<and> s = pre @ operators ! i @ post \<and>
               (\<forall>j<i. \<not> sublist (operators ! j) s) \<and>
               (\<forall>pre' post'. s = pre' @ operators ! i @ post' \<longrightarrow> length pre \<le> length pre') \<and>
               \<lparr>name = s, version = None\<rparr> = \<lparr>name = strip pre, version = Some (strip post)\<rparr>
        else \<lparr>name = s, version = None\<rparr> = \<lparr>name = s, version = None\<rparr>"
      by (simp only: if_False)
    with ps1 ps2 batch [OF parsed] show ?thesis
      unfolding Let_def ops by blast
  qed
qed

theorem parse_packages_entry_witness:
  "parse_packages
     [u ''flask==2.0.1'', u ''# pinned'', u '' requests >= 2.25.0 '', u ''numpy'',
      u ''django ~= 4.2'', u ''six<=1.16'', u ''pip>23'', u ''wheel<1''] =
     Inr [\<lparr>name = u ''flask'', version = Some (u ''2.0.1'')\<rparr>,
          \<lparr>name = u ''requests'', version = Some (u ''2.25.0'')\<rparr>,
          \<lparr>name = u ''numpy'', version = None\<rparr>,
          \<lparr>name = u ''django'', version = Some (u ''4.2'')\<rparr>,
          \<lparr>name = u ''six'', version = Some (u ''1.16'')\<rparr>,
          \<lparr>name = u ''pip'', version = Some (u ''23'')\<rparr>,
          \<lparr>name = u ''wheel'', version = Some (u ''1'')\<rparr>]
   \<and> (\<exists>ps1 ps2 d.
        parse_packages [u ''flask==2.0.1'', u ''# pinned''] = Inr ps1 \<and>
        parse_packages [u ''numpy'', u ''django ~= 4.2''] = Inr ps2 \<and>
        parse_packages ([u ''flask==2.0.1'', u ''# pinned''] @ [u '' requests >= 2.25.0 ''] @
                        [u ''numpy'', u ''django ~= 4.2'']) = Inr (ps1 @ [d] @ ps2) \<and>
        (let ops = [u ''=='', u ''>='', u ''<='', u ''>'', u ''<'', u ''~='']
         in if \<exists>op \<in> set ops. sublist op (u ''requests >= 2.25.0'')
            then \<exists>i pre post. i < length ops \<and>
                   u ''requests >= 2.25.0'' = pre @ ops ! i @ post \<and>
                   (\<forall>j<i. \<not> sublist (ops ! j) (u ''requests >= 2.25.0'')) \<and>
                   (\<forall>pre' post'. u ''requests >= 2.25.0'' = pre' @ ops ! i @ post' \<longrightarrow>
                      length pre \<le> length pre') \<and>
                   d = \<lparr>name = strip pre, version = Some (strip post)\<rparr>
            else d = \<lparr>name = u ''requests >= 2.25.0'', version = None\<rparr>))"
proof -
  have s: "strip (u '' requests >= 2.25.0 '') = u ''requests >= 2.25.0''"
    by (simp add: str_defs)
  have ne: "u ''requests >= 2.25.0'' \<noteq> []"
    by (simp add: u_def)
  have nc: "\<not> startswith (u ''requests >= 2.25.0'') (u ''#'')"
    by (simp add: str_defs)
  have v: "parse_packages
     [u ''flask==2.0.1'', u ''# pinned'', u '' requests >= 2.25.0 '', u ''numpy'',
      u ''django ~= 4.2'', u ''six<=1.16'', u ''pip>23'', u ''wheel<1''] =
     Inr [\<lparr>name = u ''flask'', version = Some (u ''2.0.1'')\<rparr>,
          \<lparr>name = u ''requests'', version = Some (u ''2.25.0'')\<rparr>,
          \<lparr>name = u ''numpy'', version = None\<rparr>,
          \<lparr>name = u ''django'', version = Some (u ''4.2'')\<rparr>,
          \<lparr>name = u ''six'', version = Some (u ''1.16'')\<rparr>,
          \<lparr>name = u ''pip'', version = Some (u ''23'')\<rparr>,
          \<lparr>name = u ''wheel'', version = Some (u ''1'')\<rparr>]"
    by (simp add: str_defs)
  from parse_packages_entry [OF s ne nc, of "[u ''flask==2.0.1'', u ''# pinned'']"
      "[u ''numpy'', u ''django ~= 4.2'']"] v
  show ?thesis by blast
qed


lemma parse_a1: "parse_packages [u ''a==1''] = Inr [\<lparr>name = u ''a'', version = Some (u ''1'')\<rparr>]"
  by (simp add: str_defs)

lemmas validate_defs = package_health_def ascii_lower_def

lemma run_python_a1:
  "fst (analyze_python_dependencies net_down [] [u ''a==1'']) =
     Inr \<lparr>total_packages = 1, outdated_count = 0, vulnerable_count = 0, deprecated_count = 0,
          overall_health_score = 100,
          packages = [\<lparr>name' = u ''a'', current_version = Some (u ''1''),
                       latest_version = None, is_outdated = False,
                       has_vulnerabilities = False, vulnerability_count = 0,
                       is_deprecated = False, health_score = 100,
                       recommendation = msg_healthy, vulnerabilities = []\<rparr>]\<rparr>"
  unfolding analyze_python_dependencies_def parse_a1
  by (simp add: net_down_def lookup_defs
      count_package_def tally0_def overall_response_def overall_score_def floordiv_def
      validate_defs calculate_health_score_def get_recommendation_def)

lemma run_npm_a1:
  "fst (analyze_npm_dependencies net_down []
          \<lparr>dependencies = Some [(u ''a'', u ''^1'')], devDependencies = None\<rparr>) =
     Inr \<lparr>total_packages = 1, outdated_count = 0, vulnerable_count = 0, deprecated_count = 0,
          overall_health_score = 100,
          packages = [\<lparr>name' = u ''a'', current_version = Some (u ''1''),
                       latest_version = None, is_outdated = False,
                       has_vulnerabilities = False, vulnerability_count = 0,
                       is_deprecated = False, health_score = 100,
                       recommendation = msg_healthy, vulnerabilities = []\<rparr>]\<rparr>"
  by (simp add: analyze_npm_dependencies_def all_deps_def dict_unpack_def npm_packages_def
      lstrip_chars_def u_def net_down_def lookup_defs
      count_package_def tally0_def overall_response_def overall_score_def floordiv_def
      validate_defs calculate_health_score_def get_recommendation_def)

theorem overall_score_floor_average_witness:
  "overall_score
     [projr (package_health \<lparr>name = u ''a'', version = None\<rparr> JNull False [] (JBool False)),
      projr (package_health \<lparr>name = u ''b'', version = None\<rparr> JNull False
        (replicate 4 \<lparr>vuln_id = JNull, summary = JNull, severity = JNull, published = JNull\<rparr>)
        (JBool False)),
      projr (package_health \<lparr>name = u ''c'', version = Some (u ''1'')\<rparr> (JStr (u ''2'')) True
        (replicate 4 \<lparr>vuln_id = JNull, summary = JNull, severity = JNull, published = JNull\<rparr>)
        (JBool False))] = Inr 60
   \<and> overall_health_score
        (projr (fst (analyze_python_dependencies net_down [] [u ''a==1'']))) = 100
   \<and> overall_health_score
        (projr (fst (analyze_npm_dependencies net_down []
           \<lparr>dependencies = Some [(u ''a'', u ''^1'')], devDependencies = None\<rparr>))) = 100"
proof -
  let ?v = "\<lparr>vuln_id = JNull, summary = JNull, severity = JNull, published = JNull\<rparr>"
  let ?rs = "[projr (package_health \<lparr>name = u ''a'', version = None\<rparr> JNull False [] (JBool False)),
      projr (package_health \<lparr>name = u ''b'', version = None\<rparr> JNull False (replicate 4 ?v)
        (JBool False)),
      projr (package_health \<lparr>name = u ''c'', version = Some (u ''1'')\<rparr> (JStr (u ''2'')) True
        (replicate 4 ?v) (JBool False))]"
  let ?R = "\<lparr>total_packages = 1, outdated_count = 0, vulnerable_count = 0, deprecated_count = 0,
          overall_health_score = 100,
          packages = [\<lparr>name' = u ''a'', current_version = Some (u ''1''),
                       latest_version = None, is_outdated = False,
                       has_vulnerabilities = False, vulnerability_count = 0,
                       is_deprecated = False, health_score = 100,
                       recommendation = msg_healthy, vulnerabilities = []\<rparr>]\<rparr>"
  have scores: "map health_score ?rs = [100, 50, 30]"
    by (simp add: package_health_def calculate_health_score_def)
  note inst = overall_score_floor_average [of ?rs net_down "[]" "[u ''a==1'']" ?R
      "\<lparr>dependencies = Some [(u ''a'', u ''^1'')], devDependencies = None\<rparr>" ?R]
  from inst scores have "overall_score ?rs = Inr 60" by blast
  moreover from inst run_python_a1 run_npm_a1 have "overall_health_score ?R = 100"
    by simp
  ultimately show ?thesis
    by (simp add: run_python_a1 run_npm_a1)
qed

lemma parse_packages_Nil_iff:
  "parse_packages entries = Inr [] \<longleftrightarrow>
     (\<forall>e \<in> set entries. strip e = [] \<or> startswith (strip e) (u ''#''))"
proof (induction entries)
  case Nil
  then show ?case by simp
next
  case (Cons e entries)
  obtain d where d: "scan_operators operators (strip e) = Inr d"
    using scan_operators_total by blast
  obtain ps where ps: "parse_packages entries = Inr ps"
    using parse_packages_total by blast
  show ?case
  proof (cases "strip e = [] \<or> startswith (strip e) (u ''#'')")
    case True
    with Cons.IH show ?thesis by (auto simp: Let_def)
  next
    case False
    with d ps show ?thesis by (auto simp: Let_def bind_exc_def)
  qed
qed

lemma parse_packages_skipped:
  assumes "strip entry = [] \<or> startswith (strip entry) (u ''#'')"
  shows "parse_packages (es1 @ [entry] @ es2) = parse_packages (es1 @ es2)"
proof -
  obtain ps1 where ps1: "parse_packages es1 = Inr ps1"
    using parse_packages_total by blast
  obtain ps2 where ps2: "parse_packages es2 = Inr ps2"
    using parse_packages_total by blast
  have "parse_packages ([entry] @ es2) = Inr ([] @ ps2)"
    by (rule parse_packages_append [OF parse_packages_skip [OF assms] ps2])
  then have "parse_packages (es1 @ [entry] @ es2) = Inr (ps1 @ [] @ ps2)"
    by (rule parse_packages_append [OF ps1])
  moreover have "parse_packages (es1 @ es2) = Inr (ps1 @ ps2)"
    by (rule parse_packages_append [OF ps1 ps2])
  ultimately show ?thesis by simp
qed

lemma dict_unpack_Nil: "dict_unpack a b = [] \<longleftrightarrow> a = [] \<and> b = []"
proof -
  have "fold (\<lambda>kv d. AList.update (fst kv) (snd kv) d) xs d \<noteq> []" if "d \<noteq> [] \<or> xs \<noteq> []"
    for xs :: "(str \<times> str) list" and d
    using that
  proof (induction xs arbitrary: d)
    case Nil
    then show ?case by simp
  next
    case (Cons x xs)
    have "AList.update (fst x) (snd x) d \<noteq> []"
      by (cases d) auto
    then show ?case using Cons.IH by simp
  qed
  from this [of "[]" "a @ b"] show ?thesis
    by (auto simp: dict_unpack_def)
qed

text \<open>
  C6: an entry that is empty after trimming or starts with \<open>#\<close> after trimming adds
  nothing to the parsed batch, and the parser yields no dependency exactly when every
  entry is such an entry. A batch with no dependency (Endpoint A; Endpoint B with an empty
  merge) and an ecosystem other than \<open>python\<close> and \<open>npm\<close> (Endpoint C) are answered with
  an \<open>HTTPException\<close> of status 400, and the list of requests sent is unchanged: no
  registry or vulnerability request is made before the error.
\<close>

theorem validation_error_before_lookups:
  "(strip entry = [] \<or> startswith (strip entry) (u ''#'') \<longrightarrow>
      parse_packages (es1 @ [entry] @ es2) = parse_packages (es1 @ es2))
   \<and> (parse_packages entries = Inr [] \<longleftrightarrow>
        (\<forall>e \<in> set entries. strip e = [] \<or> startswith (strip e) (u ''#'')))
   \<and> (parse_packages entries = Inr [] \<longrightarrow>
        analyze_python_dependencies net tr entries =
          (Inl (HTTPException 400 (u ''No valid packages found in the provided content'')), tr))
   \<and> (dependencies request = Some [] \<and> or_empty (devDependencies request) = [] \<longrightarrow>
        analyze_npm_dependencies net tr request =
          (Inl (HTTPException 400 (u ''No valid packages found in the provided content'')), tr))
   \<and> (ecosystem \<noteq> u ''python'' \<and> ecosystem \<noteq> u ''npm'' \<longrightarrow>
        check_single_package net tr package ecosystem =
          (Inl (HTTPException 400
             (u ''Ecosystem must be '' @ [39] @ u ''python'' @ [39] @ u '' or '' @ [39] @
              u ''npm'' @ [39])), tr))"
proof (intro conjI impI)
  show "parse_packages (es1 @ [entry] @ es2) = parse_packages (es1 @ es2)"
    if "strip entry = [] \<or> startswith (strip entry) (u ''#'')"
    using that by (rule parse_packages_skipped)
  show "parse_packages entries = Inr [] \<longleftrightarrow>
        (\<forall>e \<in> set entries. strip e = [] \<or> startswith (strip e) (u ''#''))"
    by (rule parse_packages_Nil_iff)
  show "analyze_python_dependencies net tr entries =
          (Inl (HTTPException 400 (u ''No valid packages found in the provided content'')), tr)"
    if "parse_packages entries = Inr []"
    using that by (simp add: analyze_python_dependencies_def no_valid_packages_def)
  show "analyze_npm_dependencies net tr request =
          (Inl (HTTPException 400 (u ''No valid packages found in the provided content'')), tr)"
    if "dependencies request = Some [] \<and> or_empty (devDependencies request) = []"
  proof -
    from that have "all_deps request = Inr []"
      using dict_unpack_Nil [of "[]" "[]"] by (simp add: all_deps_def)
    then show ?thesis
      by (simp add: analyze_npm_dependencies_def npm_packages_def no_valid_packages_def)
  qed
  show "check_single_package net tr package ecosystem =
          (Inl (HTTPException 400
             (u ''Ecosystem must be '' @ [39] @ u ''python'' @ [39] @ u '' or '' @ [39] @
              u ''npm'' @ [39])), tr)"
    if "ecosystem \<noteq> u ''python'' \<and> ecosystem \<noteq> u ''npm''"
    using that by (simp add: check_single_package_def bad_ecosystem_def)
qed

theorem validation_error_before_lookups_witness:
  "parse_packages [u ''requests'', u ''  # pinned'', u ''flask''] =
     parse_packages [u ''requests'', u ''flask'']
   \<and> parse_packages [u ''   '', u ''# only a comment''] = Inr []
   \<and> analyze_python_dependencies net_down [] [u ''   '', u ''# only a comment''] =
       (Inl (HTTPException 400 (u ''No valid packages found in the provided content'')), [])
   \<and> analyze_npm_dependencies net_down []
        \<lparr>dependencies = Some [], devDependencies = None\<rparr> =
       (Inl (HTTPException 400 (u ''No valid packages found in the provided content'')), [])
   \<and> check_single_package net_down [] \<lparr>name = u ''rails'', version = None\<rparr> (u ''ruby'') =
       (Inl (HTTPException 400
          (u ''Ecosystem must be '' @ [39] @ u ''python'' @ [39] @ u '' or '' @ [39] @
           u ''npm'' @ [39])), [])"
proof -
  note inst1 = validation_error_before_lookups
    [of "u ''  # pinned''" "[u ''requests'']" "[u ''flask'']" "[u ''   '', u ''# only a comment'']"
        net_down "[]" "\<lparr>dependencies = Some [], devDependencies = None\<rparr>"
        "u ''ruby''" "\<lparr>name = u ''rails'', version = None\<rparr>"]
  have c: "strip (u ''  # pinned'') = [] \<or> startswith (strip (u ''  # pinned'')) (u ''#'')"
    by (simp add: str_defs)
  have sk: "\<forall>e \<in> set [u ''   '', u ''# only a comment''].
      strip e = [] \<or> startswith (strip e) (u ''#'')"
    by (simp add: str_defs)
  have eco: "u ''ruby'' \<noteq> u ''python'' \<and> u ''ruby'' \<noteq> u ''npm''"
    by (simp add: u_def)
  from inst1 c have "parse_packages ([u ''requests''] @ [u ''  # pinned''] @ [u ''flask'']) =
     parse_packages ([u ''requests''] @ [u ''flask''])"
    by blast
  moreover from inst1 sk have e: "parse_packages [u ''   '', u ''# only a comment''] = Inr []"
    by blast
  moreover from inst1 e have "analyze_python_dependencies net_down [] [u ''   '', u ''# only a comment''] =
       (Inl (HTTPException 400 (u ''No valid packages found in the provided content'')), [])"
    by blast
  moreover from inst1 have "analyze_npm_dependencies net_down []
        \<lparr>dependencies = Some [], devDependencies = None\<rparr> =
       (Inl (HTTPException 400 (u ''No valid packages found in the provided content'')), [])"
    by simp
  moreover from inst1 eco have "check_single_package net_down [] \<lparr>name = u ''rails'', version = None\<rparr> (u ''ruby'') =
       (Inl (HTTPException 400
          (u ''Ecosystem must be '' @ [39] @ u ''python'' @ [39] @ u '' or '' @ [39] @
           u ''npm'' @ [39])), [])"
    by blast
  ultimately show ?thesis by simp
qed




lemma check_npm_package_trace:
  "snd (check_npm_package net tr nm cv) = tr @ [GET (u ''https://registry.npmjs.org/'' @ nm)]"
  by (simp add: check_npm_package_def send_def)













lemma parse_leading_batch:
  "parse_packages [u ''==1.0'', u ''flask''] =
     Inr [\<lparr>name = [], version = Some (u ''1.0'')\<rparr>, \<lparr>name = u ''flask'', version = None\<rparr>]"
  by (simp add: str_defs)






section \<open>Properties of the lookups\<close>

lemma append_vulns_snd:
  "snd (append_vulns vs acc) =
     acc @ map (\<lambda>a. projr (map_vuln a)) (takeWhile (\<lambda>a. \<not> isl (map_vuln a)) vs)"
proof (induction vs arbitrary: acc)
  case Nil
  then show ?case by simp
next
  case (Cons a vs)
  then show ?case by (cases "map_vuln a") simp_all
qed

lemma map_vuln_fields:
  assumes "map_vuln (JObj kvs) = Inr v"
  shows "summary v = (case map_of kvs (u ''summary'') of
                        None \<Rightarrow> JStr (u ''No summary available'') | Some s \<Rightarrow> s)"
    and "vuln_id v = (case map_of kvs (u ''id'') of None \<Rightarrow> JNull | Some i \<Rightarrow> i)"
    and "published v = (case map_of kvs (u ''published'') of None \<Rightarrow> JStr [] | Some p \<Rightarrow> p)"
  using assms
  by (auto simp: map_vuln_def bind_exc_def split: sum.splits option.splits if_splits)

lemma map_vuln_no_severity:
  assumes "map_of kvs (u ''severity'') = None \<or> map_of kvs (u ''severity'') = Some (JArr [])"
  shows "\<exists>v. map_vuln (JObj kvs) = Inr v \<and> severity v = JStr (u ''UNKNOWN'')"
  using assms by (auto simp: map_vuln_def bind_exc_def)

lemma map_vuln_first_severity:
  assumes "map_of kvs (u ''severity'') = Some (JArr (JObj e # rest))"
  shows "\<exists>v. map_vuln (JObj kvs) = Inr v \<and>
    severity v = (case map_of e (u ''type'') of None \<Rightarrow> JStr (u ''UNKNOWN'') | Some t \<Rightarrow> t)"
  using assms by (auto simp: map_vuln_def bind_exc_def split: option.splits)

lemma osv_all_mapped:
  assumes "net (length tr) (POST (u ''https://api.osv.dev/v1/query'') (osv_payload nm eco)) =
      Response 200 (Some (JObj body))"
    and "map_of body (u ''vulns'') = Some (JArr advisories)"
    and "\<forall>a \<in> set advisories. \<exists>v. map_vuln a = Inr v"
  shows "fst (check_vulnerabilities_osv net tr nm eco) = map (\<lambda>a. projr (map_vuln a)) advisories"
proof -
  from assms(3) have "takeWhile (\<lambda>a. \<not> isl (map_vuln a)) advisories = advisories"
    by (auto simp: takeWhile_eq_all_conv)
  with append_vulns_snd [of advisories "[]"]
  have "snd (append_vulns advisories []) = map (\<lambda>a. projr (map_vuln a)) advisories"
    by simp
  with assms(1,2) show ?thesis
    by (simp add: check_vulnerabilities_osv_def send_def osv_try_def)
qed

lemma map_vuln_falsy_severity:
  assumes "map_of kvs (u ''severity'') = Some s" and "\<not> truthy s"
  shows "\<exists>v. map_vuln (JObj kvs) = Inr v \<and> severity v = JStr (u ''UNKNOWN'')"
  using assms by (auto simp: map_vuln_def bind_exc_def)

text \<open>
  C8: an advisory (a JSON object) is mapped to a record whose summary is the literal
  \<open>No summary available\<close> when the advisory has no summary, and whose severity is the
  type of the first entry of the severity list, or the literal \<open>UNKNOWN\<close> when the
  advisory has no severity, when its severity is empty (or any other false value), or
  when the first entry has no type. When every advisory of the answer can be mapped, the
  lookup returns the records of all of them, in the order of the answer.
\<close>

theorem map_vuln_defaults:
  "(map_vuln (JObj kvs) = Inr v \<longrightarrow>
      summary v = (case map_of kvs (u ''summary'') of
                     None \<Rightarrow> JStr (u ''No summary available'') | Some s \<Rightarrow> s))
   \<and> (map_of kvs (u ''severity'') = None \<or> map_of kvs (u ''severity'') = Some (JArr []) \<or>
       (\<exists>s. map_of kvs (u ''severity'') = Some s \<and> \<not> truthy s) \<longrightarrow>
        (\<exists>w. map_vuln (JObj kvs) = Inr w \<and> severity w = JStr (u ''UNKNOWN'')))
   \<and> (map_of kvs (u ''severity'') = Some (JArr (JObj e # rest)) \<longrightarrow>
        (\<exists>w. map_vuln (JObj kvs) = Inr w \<and>
           severity w =
             (case map_of e (u ''type'') of None \<Rightarrow> JStr (u ''UNKNOWN'') | Some t \<Rightarrow> t)))
   \<and> (net (length tr) (POST (u ''https://api.osv.dev/v1/query'') (osv_payload nm eco)) =
         Response 200 (Some (JObj body)) \<and>
       map_of body (u ''vulns'') = Some (JArr advisories) \<and>
       (\<forall>a \<in> set advisories. \<exists>w. map_vuln a = Inr w) \<longrightarrow>
        fst (check_vulnerabilities_osv net tr nm eco) =
          map (\<lambda>a. projr (map_vuln a)) advisories)"
proof (intro conjI impI)
  show "summary v = (case map_of kvs (u ''summary'') of
                     None \<Rightarrow> JStr (u ''No summary available'') | Some s \<Rightarrow> s)"
    if "map_vuln (JObj kvs) = Inr v"
    using that by (rule map_vuln_fields(1))
  show "\<exists>w. map_vuln (JObj kvs) = Inr w \<and> severity w = JStr (u ''UNKNOWN'')"
    if "map_of kvs (u ''severity'') = None \<or> map_of kvs (u ''severity'') = Some (JArr []) \<or>
       (\<exists>s. map_of kvs (u ''severity'') = Some s \<and> \<not> truthy s)"
    using that map_vuln_no_severity [of kvs] map_vuln_falsy_severity [of kvs] by blast
  show "\<exists>w. map_vuln (JObj kvs) = Inr w \<and>
           severity w =
             (case map_of e (u ''type'') of None \<Rightarrow> JStr (u ''UNKNOWN'') | Some t \<Rightarrow> t)"
    if "map_of kvs (u ''severity'') = Some (JArr (JObj e # rest))"
    using that by (rule map_vuln_first_severity)
  show "fst (check_vulnerabilities_osv net tr nm eco) =
          map (\<lambda>a. projr (map_vuln a)) advisories"
    if "net (length tr) (POST (u ''https://api.osv.dev/v1/query'') (osv_payload nm eco)) =
         Response 200 (Some (JObj body)) \<and>
       map_of body (u ''vulns'') = Some (JArr advisories) \<and>
       (\<forall>a \<in> set advisories. \<exists>w. map_vuln a = Inr w)"
    using that osv_all_mapped [of net tr nm eco body advisories] by blast
qed

lemmas json_keys = u_def map_vuln_def bind_exc_def

theorem map_vuln_defaults_witness:
  "map_vuln (JObj [(u ''id'', JStr (u ''GHSA-1'')),
                   (u ''severity'', JArr [JObj [(u ''type'', JStr (u ''CVSS_V3'')),
                                               (u ''score'', JStr (u ''9.8''))]])]) =
     Inr \<lparr>vuln_id = JStr (u ''GHSA-1''), summary = JStr (u ''No summary available''),
          severity = JStr (u ''CVSS_V3''), published = JStr []\<rparr>
   \<and> map_vuln (JObj [(u ''id'', JStr (u ''PYSEC-2'')), (u ''summary'', JStr (u ''Overflow''))]) =
     Inr \<lparr>vuln_id = JStr (u ''PYSEC-2''), summary = JStr (u ''Overflow''),
          severity = JStr (u ''UNKNOWN''), published = JStr []\<rparr>
   \<and> fst (check_vulnerabilities_osv
        (net_always (Response 200 (Some (JObj [(u ''vulns'',
           JArr [JObj [(u ''id'', JStr (u ''PYSEC-2'')), (u ''summary'', JStr (u ''Overflow''))]])]))))
        [] (u ''flask'') (u ''python'')) =
     [\<lparr>vuln_id = JStr (u ''PYSEC-2''), summary = JStr (u ''Overflow''),
       severity = JStr (u ''UNKNOWN''), published = JStr []\<rparr>]"
proof -
  let ?a1 = "[(u ''id'', JStr (u ''GHSA-1'')),
              (u ''severity'', JArr [JObj [(u ''type'', JStr (u ''CVSS_V3'')),
                                          (u ''score'', JStr (u ''9.8''))]])]"
  let ?a2 = "[(u ''id'', JStr (u ''PYSEC-2'')), (u ''summary'', JStr (u ''Overflow''))]"
  let ?v1 = "\<lparr>vuln_id = JStr (u ''GHSA-1''), summary = JStr (u ''No summary available''),
          severity = JStr (u ''CVSS_V3''), published = JStr []\<rparr>"
  let ?v2 = "\<lparr>vuln_id = JStr (u ''PYSEC-2''), summary = JStr (u ''Overflow''),
          severity = JStr (u ''UNKNOWN''), published = JStr []\<rparr>"
  let ?body = "[(u ''vulns'', JArr [JObj ?a2])]"
  let ?net = "net_always (Response 200 (Some (JObj ?body)))"
  have m1: "map_vuln (JObj ?a1) = Inr ?v1" by (simp add: json_keys)
  have m2: "map_vuln (JObj ?a2) = Inr ?v2" by (simp add: json_keys)
  have sev1: "map_of ?a1 (u ''severity'') =
      Some (JArr (JObj [(u ''type'', JStr (u ''CVSS_V3'')), (u ''score'', JStr (u ''9.8''))] # []))"
    by (simp add: u_def)
  have sev2: "map_of ?a2 (u ''severity'') = None" by (simp add: u_def)
  have n: "?net (length ([] :: trace))
      (POST (u ''https://api.osv.dev/v1/query'') (osv_payload (u ''flask'') (u ''python''))) =
      Response 200 (Some (JObj ?body))"
    by (simp add: net_always_def)
  have b: "map_of ?body (u ''vulns'') = Some (JArr [JObj ?a2])" by simp
  have ok: "\<forall>a \<in> set [JObj ?a2]. \<exists>w. map_vuln a = Inr w" using m2 by simp
  note i1 = map_vuln_defaults [of ?a1 ?v1
      "[(u ''type'', JStr (u ''CVSS_V3'')), (u ''score'', JStr (u ''9.8''))]" "[]"
      ?net "[]" "u ''flask''" "u ''python''" ?body "[JObj ?a2]"]
  from i1 n b ok have "fst (check_vulnerabilities_osv ?net [] (u ''flask'') (u ''python'')) =
      map (\<lambda>a. projr (map_vuln a)) [JObj ?a2]"
    by blast
  then have "fst (check_vulnerabilities_osv ?net [] (u ''flask'') (u ''python'')) = [?v2]"
    by (simp add: m2)
  with m1 m2 show ?thesis by simp
qed


lemma pypi_request_failed:
  assumes "\<not> (\<exists>data. net (length tr) (GET (u ''https://pypi.org/pypi/'' @ nm @ u ''/json'')) =
              Response 200 (Some data))"
  shows "fst (check_pypi_package net tr nm cv) = neutral_pypi"
  using assms
  by (cases "net (length tr) (GET (u ''https://pypi.org/pypi/'' @ nm @ u ''/json''))")
    (auto simp: check_pypi_package_def send_def pypi_try_def split: option.splits)

lemma npm_request_failed:
  assumes "\<not> (\<exists>data. net (length tr) (GET (u ''https://registry.npmjs.org/'' @ nm)) =
              Response 200 (Some data))"
  shows "fst (check_npm_package net tr nm cv) = neutral_npm"
  using assms
  by (cases "net (length tr) (GET (u ''https://registry.npmjs.org/'' @ nm))")
    (auto simp: check_npm_package_def send_def npm_try_def split: option.splits)

lemma osv_request_failed:
  assumes "\<not> (\<exists>data. net (length tr)
              (POST (u ''https://api.osv.dev/v1/query'') (osv_payload nm eco)) =
              Response 200 (Some data))"
  shows "fst (check_vulnerabilities_osv net tr nm eco) = []"
  using assms
  by (cases "net (length tr) (POST (u ''https://api.osv.dev/v1/query'') (osv_payload nm eco))")
    (auto simp: check_vulnerabilities_osv_def send_def osv_try_def split: option.splits)

lemma pypi_raises:
  assumes "pypi_try (net (length tr) (GET (u ''https://pypi.org/pypi/'' @ nm @ u ''/json''))) cv = Inl e"
  shows "fst (check_pypi_package net tr nm cv) = neutral_pypi"
  using assms by (simp add: check_pypi_package_def send_def)

lemma npm_raises:
  assumes "npm_try (net (length tr) (GET (u ''https://registry.npmjs.org/'' @ nm))) cv = Inl e"
  shows "fst (check_npm_package net tr nm cv) = neutral_npm"
  using assms by (simp add: check_npm_package_def send_def)

lemma osv_decoded:
  assumes "net (length tr) (POST (u ''https://api.osv.dev/v1/query'') (osv_payload nm eco)) =
      Response 200 (Some data)"
  shows "fst (check_vulnerabilities_osv net tr nm eco) =
    (case dict_get data (u ''vulns'') (JArr []) of
       Inl e \<Rightarrow> []
     | Inr vulns \<Rightarrow>
         (case iterate vulns of
            Inl e \<Rightarrow> []
          | Inr vs \<Rightarrow>
              map (\<lambda>a. projr (map_vuln a)) (takeWhile (\<lambda>a. \<not> isl (map_vuln a)) vs)))"
  using assms append_vulns_snd [of _ "[]"]
  by (simp add: check_vulnerabilities_osv_def send_def osv_try_def split: sum.splits)

text \<open>
  C5: the lookups do not always degrade to the neutral result, and a malformed answer can
  leave the pipeline without a response. Three answers with status 200 and a decodable
  body show it.
  \<^item> The vulnerability source answers with an advisory followed by a string: the lookup
    raises at the string (\<open>AttributeError\<close>, caught), yet returns the record of the
    advisory, not the empty list.
  \<^item> The npm registry answers with a deprecation message in place of a flag: the lookup
    returns it as it is, the constructor of the response rejects it, and Endpoint C and
    Endpoint B end with an uncaught \<open>ValidationError\<close> after their two requests. So
    does Endpoint A when PyPI answers with a list in place of the version string.
  \<^item> PyPI answers with the version \<open>null\<close> for a package with a declared version: the
    lookup reports no latest version and yet \<open>is_outdated\<close> true (the npm lookup tests
    the latest version too, and reports false).
\<close>

theorem lookup_failure_not_degraded:
  "fst (osv_try (Response 200 (Some (JObj [(u ''vulns'',
          JArr [JObj [(u ''id'', JStr (u ''GHSA-1''))], JStr (u ''junk'')])])))) =
     Some AttributeError
   \<and> fst (check_vulnerabilities_osv
        (net_always (Response 200 (Some (JObj [(u ''vulns'',
           JArr [JObj [(u ''id'', JStr (u ''GHSA-1''))], JStr (u ''junk'')])]))))
        [] (u ''left-pad'') (u ''npm'')) =
     [\<lparr>vuln_id = JStr (u ''GHSA-1''), summary = JStr (u ''No summary available''),
       severity = JStr (u ''UNKNOWN''), published = JStr []\<rparr>]
   \<and> check_single_package
        (net_always (Response 200 (Some (JObj [(u ''deprecated'', JStr (u ''no longer maintained''))]))))
        [] \<lparr>name = u ''left-pad'', version = None\<rparr> (u ''npm'') =
     (Inl (Uncaught ValidationError),
      [GET (u ''https://registry.npmjs.org/left-pad''),
       POST (u ''https://api.osv.dev/v1/query'') (osv_payload (u ''left-pad'') (u ''npm''))])
   \<and> analyze_npm_dependencies
        (net_always (Response 200 (Some (JObj [(u ''deprecated'', JStr (u ''no longer maintained''))]))))
        [] \<lparr>dependencies = Some [(u ''left-pad'', u ''^1.0.0'')], devDependencies = None\<rparr> =
     (Inl (Uncaught ValidationError),
      [GET (u ''https://registry.npmjs.org/left-pad''),
       POST (u ''https://api.osv.dev/v1/query'') (osv_payload (u ''left-pad'') (u ''npm''))])
   \<and> analyze_python_dependencies
        (net_always (Response 200 (Some (JObj [(u ''info'',
           JObj [(u ''version'', JArr [JStr (u ''2.0.1'')])])]))))
        [] [u ''flask==2.0.1''] =
     (Inl (Uncaught ValidationError),
      [GET (u ''https://pypi.org/pypi/flask/json''),
       POST (u ''https://api.osv.dev/v1/query'') (osv_payload (u ''flask'') (u ''python''))])
   \<and> fst (check_pypi_package
        (net_always (Response 200 (Some (JObj [(u ''info'', JObj [(u ''version'', JNull)])]))))
        [] (u ''flask'') (Some (u ''2.0.1''))) =
     \<lparr>info_latest_version = JNull, info_is_outdated = True,
      info_releases = Some [], info_deprecated = None\<rparr>
   \<and> fst (check_npm_package
        (net_always (Response 200 (Some (JObj [(u ''dist-tags'', JObj [(u ''latest'', JNull)])]))))
        [] (u ''express'') (Some (u ''4.17.1''))) = neutral_npm"
proof (intro conjI)
  let ?advisories = "Response 200 (Some (JObj [(u ''vulns'',
          JArr [JObj [(u ''id'', JStr (u ''GHSA-1''))], JStr (u ''junk'')])]))"
  let ?message = "Response 200 (Some (JObj [(u ''deprecated'', JStr (u ''no longer maintained''))]))"
  show "fst (osv_try ?advisories) = Some AttributeError"
    by (simp add: osv_try_def json_keys)
  show "fst (check_vulnerabilities_osv (net_always ?advisories) [] (u ''left-pad'') (u ''npm'')) =
     [\<lparr>vuln_id = JStr (u ''GHSA-1''), summary = JStr (u ''No summary available''),
       severity = JStr (u ''UNKNOWN''), published = JStr []\<rparr>]"
    by (simp add: check_vulnerabilities_osv_def send_def net_always_def osv_try_def json_keys)
  show "check_single_package (net_always ?message)
        [] \<lparr>name = u ''left-pad'', version = None\<rparr> (u ''npm'') =
     (Inl (Uncaught ValidationError),
      [GET (u ''https://registry.npmjs.org/left-pad''),
       POST (u ''https://api.osv.dev/v1/query'') (osv_payload (u ''left-pad'') (u ''npm''))])"
    by (simp add: check_single_package_def lookup_defs net_always_def validate_defs
        bind_exc_def u_def Let_def)
  show "analyze_npm_dependencies (net_always ?message)
        [] \<lparr>dependencies = Some [(u ''left-pad'', u ''^1.0.0'')], devDependencies = None\<rparr> =
     (Inl (Uncaught ValidationError),
      [GET (u ''https://registry.npmjs.org/left-pad''),
       POST (u ''https://api.osv.dev/v1/query'') (osv_payload (u ''left-pad'') (u ''npm''))])"
    by (simp add: analyze_npm_dependencies_def all_deps_def dict_unpack_def npm_packages_def
        lstrip_chars_def lookup_defs net_always_def validate_defs bind_exc_def u_def Let_def
        tally0_def)
  have flask: "parse_packages [u ''flask==2.0.1''] =
      Inr [\<lparr>name = u ''flask'', version = Some (u ''2.0.1'')\<rparr>]"
    by (simp add: str_defs)
  show "analyze_python_dependencies
        (net_always (Response 200 (Some (JObj [(u ''info'',
           JObj [(u ''version'', JArr [JStr (u ''2.0.1'')])])]))))
        [] [u ''flask==2.0.1''] =
     (Inl (Uncaught ValidationError),
      [GET (u ''https://pypi.org/pypi/flask/json''),
       POST (u ''https://api.osv.dev/v1/query'') (osv_payload (u ''flask'') (u ''python''))])"
    unfolding analyze_python_dependencies_def flask
    by (simp add: lookup_defs net_always_def validate_defs bind_exc_def u_def Let_def tally0_def)
  show "fst (check_pypi_package
        (net_always (Response 200 (Some (JObj [(u ''info'', JObj [(u ''version'', JNull)])]))))
        [] (u ''flask'') (Some (u ''2.0.1''))) =
     \<lparr>info_latest_version = JNull, info_is_outdated = True,
      info_releases = Some [], info_deprecated = None\<rparr>"
    by (simp add: lookup_defs net_always_def bind_exc_def u_def)
  show "fst (check_npm_package
        (net_always (Response 200 (Some (JObj [(u ''dist-tags'', JObj [(u ''latest'', JNull)])]))))
        [] (u ''express'') (Some (u ''4.17.1''))) = neutral_npm"
    by (simp add: lookup_defs net_always_def bind_exc_def u_def)
qed

section \<open>Properties of Endpoint B\<close>















end
